theory Spec2Isabelle
  imports Complex_Main "HOL-Library.Sublist"
begin

section \<open>SentiCoreX: analysis orchestration and degradation\<close>

text \<open>
  A shallow embedding of \<^verbatim>\<open>services/geminiService.ts\<close> (the single-text analysis, its
  keyword-matching fallback and the two-text comparison) and of the two handlers
  \<^verbatim>\<open>handleAnalyze\<close> and \<^verbatim>\<open>handleCompare\<close> of the \<^verbatim>\<open>App\<close> component.

  Conventions of the model.
  \<^item> A JavaScript string is a \<^typ>\<open>string\<close>: a list of code units, each below 256.
  \<^item> A JavaScript number is the \<^typ>\<open>rat\<close> that the double denotes; every arithmetic
    operation rounds its exact result to the nearest double, as IEEE 754 prescribes.
  \<^item> Values whose static type is erased at run time (everything read from the parsed
    backend payload) are values of the type \<open>jsval\<close>.
  \<^item> A promise that settles is the sum \<open>exn + 'a\<close>: \<open>Inl\<close> is a rejection (or a thrown
    exception), \<open>Inr\<close> the value it resolves to.
  \<^item> The clock (\<^verbatim>\<open>timestamp\<close>) and the console are left out.
\<close>

subsection \<open>Characters and strings\<close>

definition code :: "char \<Rightarrow> nat" where
  "code c = of_char c"

definition isUpper :: "char \<Rightarrow> bool" where
  "isUpper c = (65 \<le> code c \<and> code c \<le> 90)"

definition isLower :: "char \<Rightarrow> bool" where
  "isLower c = (97 \<le> code c \<and> code c \<le> 122)"

definition isDigit :: "char \<Rightarrow> bool" where
  "isDigit c = (48 \<le> code c \<and> code c \<le> 57)"

text \<open>The character class \<^verbatim>\<open>[a-zA-Z]\<close>.\<close>

definition isLetter :: "char \<Rightarrow> bool" where
  "isLetter c = (isLower c \<or> isUpper c)"

text \<open>The character class \<^verbatim>\<open>\w\<close>: letters, digits and the underscore.\<close>

definition isWordChar :: "char \<Rightarrow> bool" where
  "isWordChar c = (isLetter c \<or> isDigit c \<or> code c = 95)"

text \<open>
  The character class \<^verbatim>\<open>\s\<close> below 256: tab, line feed, vertical tab, form feed,
  carriage return, space and the no-break space.
\<close>

definition isSpace :: "char \<Rightarrow> bool" where
  "isSpace c = ((9 \<le> code c \<and> code c \<le> 13) \<or> code c = 32 \<or> code c = 160)"

text \<open>
  \<^verbatim>\<open>String.prototype.toLowerCase\<close> on code units below 256: the capitals A to Z and the
  Latin-1 capitals (192 to 222 without the multiplication sign 215) move up by 32.
\<close>

definition lowerChar :: "char \<Rightarrow> char" where
  "lowerChar c =
     (if isUpper c \<or> (192 \<le> code c \<and> code c \<le> 222 \<and> code c \<noteq> 215)
      then char_of (code c + 32) else c)"

definition toLowerCase :: "string \<Rightarrow> string" where
  "toLowerCase s = map lowerChar s"

text \<open>\<^verbatim>\<open>s.includes(w)\<close>: \<open>w\<close> occurs in \<open>s\<close> as a contiguous run of code units.\<close>

fun includes_str :: "string \<Rightarrow> string \<Rightarrow> bool" where
  "includes_str [] w = (w = [])"
| "includes_str (c # cs) w = (prefix w (c # cs) \<or> includes_str cs w)"

text \<open>
  A non-negative integer inside a template literal is written in decimal, without leading
  zeros.
\<close>

definition digitChar :: "nat \<Rightarrow> char" where
  "digitChar d = char_of (d + 48)"

fun decimal :: "nat \<Rightarrow> string" where
  "decimal n =
     (if n div 10 = 0 then [digitChar n]
      else decimal (n div 10) @ [digitChar (n mod 10)])"

declare decimal.simps [simp del]

subsection \<open>IEEE double arithmetic\<close>

text \<open>
  A finite double denotes a rational number: an integer of at most 53 bits times a power
  of two whose exponent is at least \<open>-1074\<close>. \<open>binade x\<close> is the exponent \<open>e\<close> with
  \<open>2^e \<le> |x| < 2^(e+1)\<close>, kept within the exponent range of the format, so that
  \<open>2^(e - 52)\<close> is the distance between neighbouring doubles around \<open>x\<close>.
\<close>

definition pow2 :: "int \<Rightarrow> rat" where
  "pow2 e = (if 0 \<le> e then 2 ^ nat e else 1 / 2 ^ nat (- e))"

function expUp :: "int \<Rightarrow> rat \<Rightarrow> int" where
  "expUp e x = (if 1023 \<le> e \<or> x < 2 then e else expUp (e + 1) (x / 2))"
  by pat_completeness auto
termination
  by (relation "measure (\<lambda>(e, x). nat (1023 - e))") auto

function expDown :: "int \<Rightarrow> rat \<Rightarrow> int" where
  "expDown e x = (if e \<le> - 1022 \<or> 1 \<le> x then e else expDown (e - 1) (2 * x))"
  by pat_completeness auto
termination
  by (relation "measure (\<lambda>(e, x). nat (e + 1022))") auto

declare expUp.simps [simp del]

declare expDown.simps [simp del]

definition binade :: "rat \<Rightarrow> int" where
  "binade x = (if 1 \<le> \<bar>x\<bar> then expUp 0 \<bar>x\<bar> else expDown 0 \<bar>x\<bar>)"

text \<open>The nearest integer, the even one of the two when they are equally near.\<close>

definition roundHalfEven :: "rat \<Rightarrow> int" where
  "roundHalfEven y =
     (if y - of_int \<lfloor>y\<rfloor> < 1 / 2 then \<lfloor>y\<rfloor>
      else if 1 / 2 < y - of_int \<lfloor>y\<rfloor> then \<lfloor>y\<rfloor> + 1
      else if even \<lfloor>y\<rfloor> then \<lfloor>y\<rfloor> else \<lfloor>y\<rfloor> + 1)"

text \<open>
  The double nearest to \<open>x\<close> (round to nearest, ties to even): the value of a decimal
  literal, and the result of an operation whose exact result is \<open>x\<close>. A result beyond the
  largest double, which JavaScript turns into an infinity, does not arise from the numbers
  of this program.
\<close>

definition toDouble :: "rat \<Rightarrow> rat" where
  "toDouble x = of_int (roundHalfEven (x / pow2 (binade x - 52))) * pow2 (binade x - 52)"

definition dadd :: "rat \<Rightarrow> rat \<Rightarrow> rat" where
  "dadd x y = toDouble (x + y)"

definition dsub :: "rat \<Rightarrow> rat \<Rightarrow> rat" where
  "dsub x y = toDouble (x - y)"

definition dmul :: "rat \<Rightarrow> rat \<Rightarrow> rat" where
  "dmul x y = toDouble (x * y)"

definition ddiv :: "rat \<Rightarrow> rat \<Rightarrow> rat" where
  "ddiv x y = toDouble (x / y)"

text \<open>\<^verbatim>\<open>Math.min\<close> on two numbers.\<close>

definition Math_min :: "rat \<Rightarrow> rat \<Rightarrow> rat" where
  "Math_min x y = min x y"

subsection \<open>Run-time values and exceptions\<close>

text \<open>
  What \<^verbatim>\<open>JSON.parse\<close> can return, and \<^verbatim>\<open>undefined\<close> for a property that is not there.
  An object is the list of its own properties in creation order.
\<close>

datatype jsval =
    JUndefined
  | JNull
  | JBool bool
  | JNum rat
  | JStr string
  | JArr "jsval list"
  | JObj "(string \<times> jsval) list"

text \<open>
  A thrown exception, with its message. The text of the messages that the engine writes
  itself is never read by the code.
\<close>

datatype exn = Error string | TypeError string | SyntaxError string

fun errorMessage :: "exn \<Rightarrow> string" where
  "errorMessage (Error m) = m"
| "errorMessage (TypeError m) = m"
| "errorMessage (SyntaxError m) = m"

text \<open>
  Property access \<^verbatim>\<open>v.name\<close> for the names the services read. It throws a TypeError on
  \<^verbatim>\<open>null\<close> and \<^verbatim>\<open>undefined\<close>, finds an own property of an object, and is
  \<^verbatim>\<open>undefined\<close> everywhere else (no primitive, array or object prototype has a property
  of one of these names).
\<close>

fun getProp :: "jsval \<Rightarrow> string \<Rightarrow> exn + jsval" where
  "getProp JUndefined name =
     Inl (TypeError (''Cannot read properties of undefined (reading '' @ name @ '')''))"
| "getProp JNull name =
     Inl (TypeError (''Cannot read properties of null (reading '' @ name @ '')''))"
| "getProp (JObj props) name =
     (case map_of props name of None \<Rightarrow> Inr JUndefined | Some v \<Rightarrow> Inr v)"
| "getProp v name = Inr JUndefined"

text \<open>The values that \<^verbatim>\<open>||\<close> skips: with \<^verbatim>\<open>v || d\<close> a falsy \<open>v\<close> gives \<open>d\<close>.\<close>

fun falsy :: "jsval \<Rightarrow> bool" where
  "falsy JUndefined = True"
| "falsy JNull = True"
| "falsy (JBool b) = (\<not> b)"
| "falsy (JNum x) = (x = 0)"
| "falsy (JStr s) = (s = [])"
| "falsy v = False"

subsection \<open>Sentiment labels\<close>

datatype Sentiment = Positive | Negative | Neutral

fun Sentiment_value :: "Sentiment \<Rightarrow> string" where
  "Sentiment_value Positive = ''positive''"
| "Sentiment_value Negative = ''negative''"
| "Sentiment_value Neutral = ''neutral''"

subsection \<open>The fallback classifier\<close>

definition positiveWords :: "string list" where
  "positiveWords = [''love'', ''great'', ''good'', ''excellent'', ''amazing'', ''happy'',
     ''fantastic'', ''wonderful'', ''best'', ''perfect'']"

definition negativeWords :: "string list" where
  "negativeWords = [''hate'', ''terrible'', ''bad'', ''awful'', ''horrible'', ''sad'',
     ''worst'', ''disappointing'', ''poor'']"

definition positiveCount :: "string \<Rightarrow> nat" where
  "positiveCount tx =
     length (filter (\<lambda>word. includes_str (toLowerCase tx) word) positiveWords)"

definition negativeCount :: "string \<Rightarrow> nat" where
  "negativeCount tx =
     length (filter (\<lambda>word. includes_str (toLowerCase tx) word) negativeWords)"


subsection \<open>Results\<close>

datatype ApiUsed = Gemini | Fallback

text \<open>
  \<^verbatim>\<open>SentimentAnalysisResult\<close>. The fields copied from the backend payload keep whatever
  run-time value the payload had; the fields \<^verbatim>\<open>text\<close> and \<^verbatim>\<open>keywords\<close> are called
  \<open>sourceText\<close> and \<open>keywordList\<close> here.
\<close>

record SentimentAnalysisResult =
  sourceText :: string
  sentiment :: jsval
  confidence :: jsval
  scores :: jsval
  keywordList :: jsval
  explanation :: jsval
  sentenceBreakdown :: jsval
  apiUsed :: ApiUsed

subsection \<open>Keyword extraction\<close>

definition stopWords :: "string list" where
  "stopWords = [''a'', ''an'', ''the'', ''and'', ''or'', ''but'', ''in'', ''on'', ''at'', ''to'',
     ''for'', ''of'', ''with'', ''by'', ''is'', ''are'', ''was'', ''were'', ''be'', ''been'',
     ''have'', ''has'', ''had'', ''do'', ''does'', ''did'', ''will'', ''would'', ''could'',
     ''should'', ''may'', ''might'', ''must'', ''can'', ''this'', ''that'', ''these'', ''those'',
     ''i'', ''you'', ''he'', ''she'', ''it'', ''we'', ''they'', ''me'', ''him'', ''her'', ''us'',
     ''them'']"

text \<open>\<^verbatim>\<open>replace(/[^\w\s]/g, ' ')\<close>\<close>

definition stripNonWord :: "string \<Rightarrow> string" where
  "stripNonWord s = map (\<lambda>c. if isWordChar c \<or> isSpace c then c else CHR '' '') s"

text \<open>
  \<^verbatim>\<open>split(/\s+/)\<close>: the pieces between maximal runs of white space; a run at the start
  or at the end leaves an empty piece there, and the empty string gives one empty piece.
\<close>

function splitSpaces :: "string \<Rightarrow> string list" where
  "splitSpaces [] = [] # []"
| "splitSpaces (c # cs) =
     (if isSpace c then [] # splitSpaces (dropWhile isSpace cs)
      else (case splitSpaces cs of [] \<Rightarrow> [c] # [] | t # ts \<Rightarrow> (c # t) # ts))"
  by pat_completeness auto
termination
  by (relation "measure length") (auto simp: length_dropWhile_le less_Suc_eq_le)

text \<open>
  The value of a property of the counter \<^verbatim>\<open>wordCount\<close>: a number of occurrences, or a
  piece of text. The counter is a plain object, so for the word \<^verbatim>\<open>constructor\<close>, which
  it inherits from its prototype, \<^verbatim>\<open>(wordCount[word] || 0) + 1\<close> is the text of the
  inherited function followed by \<^verbatim>\<open>1\<close>, and each further occurrence appends another
  \<^verbatim>\<open>1\<close>; for the word \<^verbatim>\<open>__proto__\<close> the assignment of such a text is ignored and no
  property is created. No other word of lower-case letters, digits and underscores is
  inherited.
\<close>

datatype tally = Times nat | Text

fun plusOne :: "tally \<Rightarrow> tally" where
  "plusOne (Times n) = Times (n + 1)"
| "plusOne Text = Text"

text \<open>\<^verbatim>\<open>wordCount[word] = (wordCount[word] || 0) + 1\<close> on the properties in creation order.\<close>

fun bump :: "(string \<times> tally) list \<Rightarrow> string \<Rightarrow> (string \<times> tally) list" where
  "bump [] w =
     (if w = ''__proto__'' then []
      else if w = ''constructor'' then [(w, Text)]
      else [(w, Times 1)])"
| "bump ((k, n) # kvs) w = (if k = w then (k, plusOne n) # kvs else (k, n) # bump kvs w)"

text \<open>
  \<^verbatim>\<open>Object.entries\<close> lists the properties whose name is an array index (a canonical
  decimal numeral below \<open>2^32 - 1\<close>) first, in ascending numeric order, and then the
  others in creation order.
\<close>

definition numValue :: "string \<Rightarrow> int" where
  "numValue s = foldl (\<lambda>n c. 10 * n + (int (code c) - 48)) 0 s"

definition isArrayIndex :: "string \<Rightarrow> bool" where
  "isArrayIndex s =
     (s \<noteq> [] \<and> list_all isDigit s \<and> (s = ''0'' \<or> take 1 s \<noteq> ''0'') \<and> numValue s < 4294967295)"

definition Object_entries :: "(string \<times> tally) list \<Rightarrow> (string \<times> tally) list" where
  "Object_entries kvs =
     sort_key (\<lambda>kv. numValue (fst kv)) (filter (\<lambda>kv. isArrayIndex (fst kv)) kvs)
     @ filter (\<lambda>kv. \<not> isArrayIndex (fst kv)) kvs"

text \<open>
  The comparison function \<^verbatim>\<open>(a, b) => b[1] - a[1]\<close>. With a piece of text on either side
  the difference is not a number, which the sort takes for 0.
\<close>

fun compareFn :: "string \<times> tally \<Rightarrow> string \<times> tally \<Rightarrow> int" where
  "compareFn (ka, Times m) (kb, Times n) = int n - int m"
| "compareFn a b = 0"

text \<open>
  \<^verbatim>\<open>Array.prototype.sort\<close> with a comparison function. When all the counts are numbers
  the function is a consistent ordering and the result is the one stable sort of the
  entries, descending in the count. With the entry of \<^verbatim>\<open>constructor\<close> it is not, and the
  language leaves the order to the engine; the model follows V8 on an array of fewer than
  64 entries: the longest run at the start that is ascending, or strictly descending and
  then reversed, followed by binary insertion of the remaining entries.
\<close>

fun runTail :: "('a \<Rightarrow> 'a \<Rightarrow> int) \<Rightarrow> bool \<Rightarrow> 'a \<Rightarrow> 'a list \<Rightarrow> nat" where
  "runTail cmp descending previous [] = 0"
| "runTail cmp descending previous (x # xs) =
     (if (if descending then 0 \<le> cmp x previous else cmp x previous < 0) then 0
      else Suc (runTail cmp descending x xs))"

function insertionPoint :: "('a \<Rightarrow> 'a \<Rightarrow> int) \<Rightarrow> 'a \<Rightarrow> 'a list \<Rightarrow> nat \<Rightarrow> nat \<Rightarrow> nat" where
  "insertionPoint cmp pivot ys left right =
     (if left < right
      then (if cmp pivot (ys ! (left + (right - left) div 2)) < 0
            then insertionPoint cmp pivot ys left (left + (right - left) div 2)
            else insertionPoint cmp pivot ys (left + (right - left) div 2 + 1) right)
      else left)"
  by pat_completeness auto
termination
  by (relation "measure (\<lambda>(cmp, pivot, ys, left, right). right - left)") auto

declare insertionPoint.simps [simp del]

definition insertPivot :: "('a \<Rightarrow> 'a \<Rightarrow> int) \<Rightarrow> 'a list \<Rightarrow> 'a \<Rightarrow> 'a list" where
  "insertPivot cmp ys pivot =
     take (insertionPoint cmp pivot ys 0 (length ys)) ys
     @ pivot # drop (insertionPoint cmp pivot ys 0 (length ys)) ys"

definition Array_sort :: "('a \<Rightarrow> 'a \<Rightarrow> int) \<Rightarrow> 'a list \<Rightarrow> 'a list" where
  "Array_sort cmp xs =
     (case xs of
        a # b # rest \<Rightarrow>
          (let descending = cmp b a < 0;
               n = 2 + runTail cmp descending b rest
           in foldl (insertPivot cmp) (if descending then rev (take n xs) else take n xs)
                (drop n xs))
      | _ \<Rightarrow> xs)"

text \<open>\<^verbatim>\<open>extractKeywords\<close>\<close>

definition extractKeywords :: "string \<Rightarrow> string list" where
  "extractKeywords tx =
     (let ws = filter (\<lambda>word. length word > 2 \<and> word \<notin> set stopWords)
                 (splitSpaces (stripNonWord (toLowerCase tx)));
          wordCount = foldl bump [] ws
      in map fst (take 5 (Array_sort compareFn (Object_entries wordCount))))"

subsection \<open>The fallback classifier: the result\<close>

definition fallbackSentiment :: "string \<Rightarrow> Sentiment" where
  "fallbackSentiment tx =
     (if positiveCount tx > negativeCount tx then Positive
      else if negativeCount tx > positiveCount tx then Negative
      else Neutral)"

definition fallbackConfidence :: "string \<Rightarrow> rat" where
  "fallbackConfidence tx =
     (if positiveCount tx > negativeCount tx
        then Math_min (toDouble (95 / 100))
               (dadd (toDouble (7 / 10)) (dmul (of_nat (positiveCount tx)) (toDouble (5 / 100))))
      else if negativeCount tx > positiveCount tx
        then Math_min (toDouble (95 / 100))
               (dadd (toDouble (7 / 10)) (dmul (of_nat (negativeCount tx)) (toDouble (5 / 100))))
      else toDouble (75 / 100))"

text \<open>The entry of \<^verbatim>\<open>scores\<close> for the label \<open>l\<close>.\<close>

definition fallbackScore :: "string \<Rightarrow> Sentiment \<Rightarrow> rat" where
  "fallbackScore tx l =
     (if fallbackSentiment tx = l then fallbackConfidence tx
      else ddiv (dsub 1 (fallbackConfidence tx)) 2)"

definition createFallbackAnalysis :: "string \<Rightarrow> SentimentAnalysisResult" where
  "createFallbackAnalysis tx =
     \<lparr> sourceText = tx,
       sentiment = JStr (Sentiment_value (fallbackSentiment tx)),
       confidence = JNum (fallbackConfidence tx),
       scores = JObj [(''positive'', JNum (fallbackScore tx Positive)),
                      (''negative'', JNum (fallbackScore tx Negative)),
                      (''neutral'', JNum (fallbackScore tx Neutral))],
       keywordList = JArr (map JStr (extractKeywords tx)),
       explanation = JStr (''Analysis based on keyword matching. The text seems to be ''
                           @ Sentiment_value (fallbackSentiment tx) @ ''.''),
       sentenceBreakdown = JUndefined,
       apiUsed = Fallback \<rparr>"

subsection \<open>The backend and the two services\<close>

text \<open>
  One call of the remote model, as the service sees it: \<^verbatim>\<open>getAiClient\<close> throws because
  no API key is set, or \<^verbatim>\<open>generateContent\<close> rejects, or it resolves to a response;
  then \<^verbatim>\<open>JSON.parse(response.text)\<close> throws a SyntaxError (\<open>None\<close>) or returns a value.
\<close>

datatype backend =
    ApiKeyNotSet
  | CallRejected exn
  | ResponseText "jsval option"

text \<open>The backend outcomes that make the call fail before a payload is parsed.\<close>

fun backendFailed :: "backend \<Rightarrow> bool" where
  "backendFailed ApiKeyNotSet = True"
| "backendFailed (CallRejected e) = True"
| "backendFailed (ResponseText None) = True"
| "backendFailed (ResponseText (Some payload)) = False"

fun andThen :: "exn + 'a \<Rightarrow> ('a \<Rightarrow> exn + 'b) \<Rightarrow> exn + 'b" where
  "andThen (Inl e) f = Inl e"
| "andThen (Inr x) f = f x"

text \<open>The body of the \<^verbatim>\<open>try\<close> block of \<^verbatim>\<open>analyzeSentiment\<close>.\<close>

definition analyzeSentiment_try :: "backend \<Rightarrow> string \<Rightarrow> exn + SentimentAnalysisResult" where
  "analyzeSentiment_try b tx =
     (case b of
        ApiKeyNotSet \<Rightarrow> Inl (Error ''API_KEY environment variable not set.'')
      | CallRejected e \<Rightarrow> Inl e
      | ResponseText None \<Rightarrow> Inl (SyntaxError ''Unexpected token in JSON'')
      | ResponseText (Some analysis) \<Rightarrow>
          andThen (getProp analysis ''sentiment'') (\<lambda>s.
          andThen (getProp analysis ''confidence'') (\<lambda>c.
          andThen (getProp analysis ''scores'') (\<lambda>sc.
          andThen (getProp analysis ''keywords'') (\<lambda>k.
          andThen (getProp analysis ''explanation'') (\<lambda>e.
          andThen (getProp analysis ''sentenceBreakdown'') (\<lambda>sb.
            Inr \<lparr> sourceText = tx, sentiment = s, confidence = c, scores = sc,
                  keywordList = k, explanation = e,
                  sentenceBreakdown = (if falsy sb then JArr [] else sb),
                  apiUsed = Gemini \<rparr>)))))))"

text \<open>\<^verbatim>\<open>analyzeSentiment\<close>: whatever the \<^verbatim>\<open>try\<close> block throws is caught.\<close>

definition analyzeSentiment :: "backend \<Rightarrow> string \<Rightarrow> exn + SentimentAnalysisResult" where
  "analyzeSentiment b tx =
     (case analyzeSentiment_try b tx of
        Inr r \<Rightarrow> Inr r
      | Inl e \<Rightarrow> Inr (createFallbackAnalysis tx))"

definition compareFailureMessage :: string where
  "compareFailureMessage =
     ''We couldn't compare the texts right now. This might be due to the complexity of the text or a temporary connection issue. Please try again with different text.''"

text \<open>
  \<^verbatim>\<open>compareSentiments\<close>: the parsed payload is returned as it is; whatever is thrown is
  replaced by one Error with a fixed message.
\<close>

definition compareSentiments :: "backend \<Rightarrow> string \<Rightarrow> string \<Rightarrow> exn + jsval" where
  "compareSentiments b textA textB =
     (case b of
        ResponseText (Some payload) \<Rightarrow> Inr payload
      | _ \<Rightarrow> Inl (Error compareFailureMessage))"

subsection \<open>Input validation\<close>

record Validation =
  valid :: bool
  validationMessage :: string

definition lettersMessage :: string where
  "lettersMessage =
     ''Invalid input. Please enter text that includes letters, not just numbers or symbols.''"

definition punctuationMessage :: string where
  "punctuationMessage =
     ''Invalid input. The input must not include full stops and inverted commas.''"

text \<open>The character class \<^verbatim>\<open>[.'"]\<close>.\<close>

definition isForbidden :: "char \<Rightarrow> bool" where
  "isForbidden c = (c = CHR ''.'' \<or> c = CHR 0x27 \<or> c = CHR 0x22)"

definition isValidTextInput :: "string \<Rightarrow> Validation" where
  "isValidTextInput tx =
     (if \<not> list_ex isLetter tx
        then \<lparr> valid = False, validationMessage = lettersMessage \<rparr>
      else if list_ex isForbidden tx
        then \<lparr> valid = False, validationMessage = punctuationMessage \<rparr>
      else \<lparr> valid = True, validationMessage = [] \<rparr>)"

subsection \<open>The state of the App component\<close>

datatype Status = StatusReady | StatusLoading | StatusError | StatusSuccess

record ApiStatus =
  status :: Status
  message :: string

text \<open>
  The state of the comparison dialog: \<open>result\<close> is the payload or \<^verbatim>\<open>null\<close>, \<open>error\<close> a
  message or \<^verbatim>\<open>null\<close>; the field \<^verbatim>\<open>isLoading\<close> of the dialog is called \<open>modalLoading\<close>.
\<close>

record ComparisonModalState =
  isOpen :: bool
  result :: jsval
  modalLoading :: bool
  error :: "string option"

text \<open>
  The state that the two handlers read and write. The mood suggestions, which are fetched
  after a single result and written to a field that nothing else reads, are left out.
\<close>

record App_state =
  results :: "SentimentAnalysisResult list"
  isLoading :: bool
  apiStatus :: ApiStatus
  analysisCount :: nat
  currentSentiment :: "jsval option"
  comparisonModalState :: ComparisonModalState

definition initial_state :: App_state where
  "initial_state =
     \<lparr> results = [], isLoading = False,
       apiStatus = \<lparr> status = StatusReady, message = ''Ready to analyze'' \<rparr>,
       analysisCount = 0, currentSentiment = None,
       comparisonModalState =
         \<lparr> isOpen = False, result = JNull, modalLoading = False, error = None \<rparr> \<rparr>"

definition MAX_ANALYSES :: nat where
  "MAX_ANALYSES = 15"

subsection \<open>handleAnalyze\<close>

datatype analyze_input = Single string | Batch "string list"

text \<open>\<^verbatim>\<open>Array.isArray(input) ? input.slice(0, 10) : [input]\<close>\<close>

fun textsOf :: "analyze_input \<Rightarrow> string list" where
  "textsOf (Batch ts) = take 10 ts"
| "textsOf (Single t) = [t]"

text \<open>The validation loop: the message of the first text that is not valid, if any.\<close>

fun firstInvalid :: "string list \<Rightarrow> string option" where
  "firstInvalid [] = None"
| "firstInvalid (t # ts) =
     (if \<not> valid (isValidTextInput t) then Some (validationMessage (isValidTextInput t))
      else firstInvalid ts)"

text \<open>
  \<^verbatim>\<open>Promise.all\<close> on promises that all settle: the values in order, or the first
  rejection.
\<close>

fun Promise_all :: "(exn + 'a) list \<Rightarrow> exn + 'a list" where
  "Promise_all [] = Inr []"
| "Promise_all (Inl e # ps) = Inl e"
| "Promise_all (Inr x # ps) = (case Promise_all ps of Inl e \<Rightarrow> Inl e | Inr xs \<Rightarrow> Inr (x # xs))"

definition quotaMessage :: "int \<Rightarrow> string" where
  "quotaMessage remaining =
     ''You've reached your usage limit for this session. You can perform ''
     @ (if remaining > 0 then decimal (nat remaining) else ''no'')
     @ '' more '' @ (if remaining = 1 then ''analysis'' else ''analyses'') @ ''.''"

definition analysisFailedMessage :: string where
  "analysisFailedMessage =
     ''Oops! Something went wrong during the analysis. Please try again shortly.''"

definition completeMessage :: "nat \<Rightarrow> string" where
  "completeMessage n = ''Analysis complete for '' @ decimal n @ '' text(s)!''"

text \<open>
  \<^verbatim>\<open>handleAnalyze\<close>, run to its end on the state \<open>s\<close>; \<open>analyze\<close> is the single-text
  service it calls for each text. An empty list of results makes the read of
  \<^verbatim>\<open>newResults[0].sentiment\<close> throw after the results and the count are written.
\<close>

definition handleAnalyze ::
    "(string \<Rightarrow> exn + SentimentAnalysisResult) \<Rightarrow> analyze_input \<Rightarrow> App_state \<Rightarrow> App_state" where
  "handleAnalyze analyze input s =
     (let texts = textsOf input in
      case firstInvalid texts of
        Some msg \<Rightarrow> s\<lparr> apiStatus := \<lparr> status = StatusError, message = msg \<rparr> \<rparr>
      | None \<Rightarrow>
          let analysesToRun = length texts in
          if analysisCount s + analysesToRun > MAX_ANALYSES then
            let remaining = int MAX_ANALYSES - int (analysisCount s) in
            s\<lparr> apiStatus := \<lparr> status = StatusError, message = quotaMessage remaining \<rparr> \<rparr>
          else
            (case Promise_all (map analyze texts) of
               Inl e \<Rightarrow>
                 s\<lparr> apiStatus := \<lparr> status = StatusError, message = analysisFailedMessage \<rparr>,
                    isLoading := False \<rparr>
             | Inr newResults \<Rightarrow>
                 (case newResults of
                    [] \<Rightarrow>
                      s\<lparr> results := newResults @ results s,
                         analysisCount := analysisCount s + length newResults,
                         apiStatus := \<lparr> status = StatusError, message = analysisFailedMessage \<rparr>,
                         isLoading := False \<rparr>
                  | r # rs \<Rightarrow>
                      s\<lparr> results := newResults @ results s,
                         analysisCount := analysisCount s + length newResults,
                         currentSentiment := Some (sentiment r),
                         apiStatus := \<lparr> status = StatusSuccess,
                                       message = completeMessage (length newResults) \<rparr>,
                         isLoading := False \<rparr>)))"

subsection \<open>handleCompare\<close>

definition compareQuotaMessage :: string where
  "compareQuotaMessage =
     ''You've reached your usage limit for this session, so a comparison can't be run.''"

definition compareDefaultMessage :: string where
  "compareDefaultMessage =
     ''There was an issue comparing the texts. Please check your input and try again.''"

text \<open>
  \<^verbatim>\<open>handleCompare\<close>, run to its end on the state \<open>s\<close>; \<open>compare\<close> is the comparison
  service it calls.
\<close>

definition handleCompare ::
    "(string \<Rightarrow> string \<Rightarrow> exn + jsval) \<Rightarrow> string \<Rightarrow> string \<Rightarrow> App_state \<Rightarrow> App_state" where
  "handleCompare compare textA textB s =
     (if analysisCount s \<ge> MAX_ANALYSES then
        s\<lparr> apiStatus := \<lparr> status = StatusError, message = compareQuotaMessage \<rparr> \<rparr>
      else if \<not> valid (isValidTextInput textA) then
        s\<lparr> apiStatus := \<lparr> status = StatusError,
                           message = ''Text A: '' @ validationMessage (isValidTextInput textA) \<rparr> \<rparr>
      else if \<not> valid (isValidTextInput textB) then
        s\<lparr> apiStatus := \<lparr> status = StatusError,
                           message = ''Text B: '' @ validationMessage (isValidTextInput textB) \<rparr> \<rparr>
      else
        (case compare textA textB of
           Inr payload \<Rightarrow>
             s\<lparr> comparisonModalState :=
                  \<lparr> isOpen = True, result = payload, modalLoading = False, error = None \<rparr>,
                analysisCount := analysisCount s + 1,
                isLoading := False \<rparr>
         | Inl e \<Rightarrow>
             s\<lparr> comparisonModalState :=
                  \<lparr> isOpen = True, result = JNull, modalLoading = False,
                    error = Some (if errorMessage e = [] then compareDefaultMessage
                                  else errorMessage e) \<rparr>,
                isLoading := False \<rparr>))"

subsection \<open>Sequences of requests\<close>

text \<open>
  A request with what the backend does when it is reached: for an analysis, the outcome
  of the call made for each text; for a comparison, the outcome of its one call. Requests
  are served one after the other, each on the state the previous one left.
\<close>

datatype event =
    AnalyzeRequest analyze_input "string \<Rightarrow> backend"
  | CompareRequest string string backend

fun step :: "App_state \<Rightarrow> event \<Rightarrow> App_state" where
  "step s (AnalyzeRequest input backends) =
     handleAnalyze (\<lambda>t. analyzeSentiment (backends t) t) input s"
| "step s (CompareRequest textA textB b) =
     handleCompare (compareSentiments b) textA textB s"

fun run :: "App_state \<Rightarrow> event list \<Rightarrow> App_state" where
  "run s [] = s"
| "run s (e # es) = run (step s e) es"

text \<open>
  The analyses that complete in answer to one request, counted as the specification
  words it: a request whose texts (at most ten) all pass validation and that the quota
  admits completes one analysis for each text; a comparison that is admitted, passes
  validation and whose backend operation succeeds completes one; every other request
  completes none.
\<close>

fun analysesCompleted :: "App_state \<Rightarrow> event \<Rightarrow> nat" where
  "analysesCompleted s (AnalyzeRequest input backends) =
     (if list_all (\<lambda>t. valid (isValidTextInput t)) (textsOf input)
         \<and> analysisCount s + length (textsOf input) \<le> MAX_ANALYSES
      then length (textsOf input) else 0)"
| "analysesCompleted s (CompareRequest textA textB b) = 0"

fun comparisonsCompleted :: "App_state \<Rightarrow> event \<Rightarrow> nat" where
  "comparisonsCompleted s (AnalyzeRequest input backends) = 0"
| "comparisonsCompleted s (CompareRequest textA textB b) =
     (if analysisCount s < MAX_ANALYSES
         \<and> valid (isValidTextInput textA) \<and> valid (isValidTextInput textB)
         \<and> \<not> backendFailed b
      then 1 else 0)"

fun totalAnalyses :: "App_state \<Rightarrow> event list \<Rightarrow> nat" where
  "totalAnalyses s [] = 0"
| "totalAnalyses s (e # es) = analysesCompleted s e + totalAnalyses (step s e) es"

fun totalComparisons :: "App_state \<Rightarrow> event list \<Rightarrow> nat" where
  "totalComparisons s [] = 0"
| "totalComparisons s (e # es) = comparisonsCompleted s e + totalComparisons (step s e) es"

text \<open>
  A session of nine requests: a single analysis, a comparison that fails, one that
  succeeds, a batch with an invalid text, a batch of eleven texts, a batch that the quota
  refuses, a batch that fills the quota, and two requests at the limit.
\<close>

definition sampleSession :: "event list" where
  "sampleSession =
     [AnalyzeRequest (Single ''I love this!'') (\<lambda>t. ApiKeyNotSet),
      CompareRequest ''one'' ''two'' ApiKeyNotSet,
      CompareRequest ''one'' ''two'' (ResponseText (Some (JObj []))),
      AnalyzeRequest (Batch [''a'', ''b'', ''1'']) (\<lambda>t. ApiKeyNotSet),
      AnalyzeRequest
        (Batch [''a'', ''b'', ''c'', ''d'', ''e'', ''f'', ''g'', ''h'', ''i'', ''j'', ''k''])
        (\<lambda>t. ResponseText None),
      AnalyzeRequest (Batch [''a'', ''b'', ''c'', ''d'']) (\<lambda>t. ApiKeyNotSet),
      AnalyzeRequest (Batch [''a'', ''b'', ''c'']) (\<lambda>t. ResponseText (Some (JObj []))),
      AnalyzeRequest (Single ''more'') (\<lambda>t. ApiKeyNotSet),
      CompareRequest ''one'' ''two'' (ResponseText (Some (JObj [])))]"


subsection \<open>Well-formed results\<close>

text \<open>
  The shape that \<^verbatim>\<open>SentimentAnalysisResult\<close> declares, with the ranges the specification
  gives: a label of the enumeration, a confidence and three scores in \<open>[0, 1]\<close>, at most
  five keywords, each a string, an explanation that is a string, and a sentence breakdown
  that is absent or an array.
\<close>

fun isScore :: "jsval \<Rightarrow> bool" where
  "isScore (JNum x) = (0 \<le> x \<and> x \<le> 1)"
| "isScore v = False"

fun isString :: "jsval \<Rightarrow> bool" where
  "isString (JStr s) = True"
| "isString v = False"

fun isScoreTriple :: "jsval \<Rightarrow> bool" where
  "isScoreTriple (JObj props) =
     list_all (\<lambda>l. case map_of props (Sentiment_value l) of None \<Rightarrow> False | Some v \<Rightarrow> isScore v)
       [Positive, Negative, Neutral]"
| "isScoreTriple v = False"

fun isKeywords :: "jsval \<Rightarrow> bool" where
  "isKeywords (JArr ks) = (length ks \<le> 5 \<and> list_all isString ks)"
| "isKeywords v = False"

fun isBreakdown :: "jsval \<Rightarrow> bool" where
  "isBreakdown JUndefined = True"
| "isBreakdown (JArr xs) = True"
| "isBreakdown v = False"

definition structurallyValid :: "SentimentAnalysisResult \<Rightarrow> bool" where
  "structurallyValid r =
     (sentiment r \<in> set (map (\<lambda>l. JStr (Sentiment_value l)) [Positive, Negative, Neutral])
      \<and> isScore (confidence r)
      \<and> isScoreTriple (scores r)
      \<and> isKeywords (keywordList r)
      \<and> isString (explanation r)
      \<and> isBreakdown (sentenceBreakdown r))"

text \<open>The own property of a payload, \<^verbatim>\<open>undefined\<close> where there is none.\<close>

fun ownProp :: "jsval \<Rightarrow> string \<Rightarrow> jsval" where
  "ownProp (JObj props) name = (case map_of props name of None \<Rightarrow> JUndefined | Some v \<Rightarrow> v)"
| "ownProp v name = JUndefined"


section \<open>Properties\<close>

subsection \<open>The fallback classifier and the single-text service\<close>

lemma includes_str_sublist: "includes_str s w \<longleftrightarrow> sublist w s"
  by (induction s) (auto simp: sublist_Cons_right)

text \<open>
  The confidence that the code computes for each winning count, the score it computes
  for a losing label from each of these, and the sums of the three scores as the code
  would add them; all evaluated in double arithmetic.
\<close>

lemma winner_values:
  "Math_min (toDouble (95 / 100))
       (dadd (toDouble (7 / 10)) (dmul 1 (toDouble (5 / 100))))
       = 3 / 4
   \<and> Math_min (toDouble (95 / 100))
       (dadd (toDouble (7 / 10)) (dmul 2 (toDouble (5 / 100))))
       = 7205759403792793 / 9007199254740992
   \<and> Math_min (toDouble (95 / 100))
       (dadd (toDouble (7 / 10)) (dmul 3 (toDouble (5 / 100))))
       = 7656119366529843 / 9007199254740992
   \<and> Math_min (toDouble (95 / 100))
       (dadd (toDouble (7 / 10)) (dmul 4 (toDouble (5 / 100))))
       = 2026619832316723 / 2251799813685248
   \<and> Math_min (toDouble (95 / 100))
       (dadd (toDouble (7 / 10)) (dmul 5 (toDouble (5 / 100))))
       = 4278419646001971 / 4503599627370496
   \<and> Math_min (toDouble (95 / 100))
       (dadd (toDouble (7 / 10)) (dmul 6 (toDouble (5 / 100))))
       = 4278419646001971 / 4503599627370496
   \<and> Math_min (toDouble (95 / 100))
       (dadd (toDouble (7 / 10)) (dmul 7 (toDouble (5 / 100))))
       = 4278419646001971 / 4503599627370496
   \<and> Math_min (toDouble (95 / 100))
       (dadd (toDouble (7 / 10)) (dmul 8 (toDouble (5 / 100))))
       = 4278419646001971 / 4503599627370496
   \<and> Math_min (toDouble (95 / 100))
       (dadd (toDouble (7 / 10)) (dmul 9 (toDouble (5 / 100))))
       = 4278419646001971 / 4503599627370496
   \<and> Math_min (toDouble (95 / 100))
       (dadd (toDouble (7 / 10)) (dmul 10 (toDouble (5 / 100))))
       = 4278419646001971 / 4503599627370496"
  by code_simp

lemma loser_values:
  "ddiv (dsub 1 (3 / 4)) 2 = 1 / 8
   \<and> ddiv (dsub 1 (7205759403792793 / 9007199254740992)) 2 = 1801439850948199 / 18014398509481984
   \<and> ddiv (dsub 1 (7656119366529843 / 9007199254740992)) 2 = 1351079888211149 / 18014398509481984
   \<and> ddiv (dsub 1 (2026619832316723 / 2251799813685248)) 2 = 225179981368525 / 4503599627370496
   \<and> ddiv (dsub 1 (4278419646001971 / 4503599627370496)) 2 = 225179981368525 / 9007199254740992"
  by code_simp

lemma sum_values:
  "dadd (dadd (3 / 4) (1 / 8)) (1 / 8) = 1
   \<and> dadd (dadd (1 / 8) (3 / 4)) (1 / 8) = 1
   \<and> dadd (dadd (7205759403792793 / 9007199254740992) (1801439850948199 / 18014398509481984)) (1801439850948199 / 18014398509481984) = 1
   \<and> dadd (dadd (1801439850948199 / 18014398509481984) (7205759403792793 / 9007199254740992)) (1801439850948199 / 18014398509481984) = 1
   \<and> dadd (dadd (7656119366529843 / 9007199254740992) (1351079888211149 / 18014398509481984)) (1351079888211149 / 18014398509481984) = 1
   \<and> dadd (dadd (1351079888211149 / 18014398509481984) (7656119366529843 / 9007199254740992)) (1351079888211149 / 18014398509481984) = 1
   \<and> dadd (dadd (2026619832316723 / 2251799813685248) (225179981368525 / 4503599627370496)) (225179981368525 / 4503599627370496) = 1
   \<and> dadd (dadd (225179981368525 / 4503599627370496) (2026619832316723 / 2251799813685248)) (225179981368525 / 4503599627370496) = 1
   \<and> dadd (dadd (4278419646001971 / 4503599627370496) (225179981368525 / 9007199254740992)) (225179981368525 / 9007199254740992) = 1
   \<and> dadd (dadd (225179981368525 / 9007199254740992) (4278419646001971 / 4503599627370496)) (225179981368525 / 9007199254740992) = 1
   \<and> dadd (dadd (1 / 8) (1 / 8)) (3 / 4) = 1"
  by code_simp

lemma tie_value: "toDouble (75 / 100) = 3 / 4"
  by code_simp

lemma score_props_1:
  "ddiv (dsub 1 (3 / 4)) 2 = (1 - 3 / 4) / 2
   \<and> dadd (dadd (3 / 4) ((1 - 3 / 4) / 2)) ((1 - 3 / 4) / 2) = 1
   \<and> dadd (dadd ((1 - 3 / 4) / 2) (3 / 4)) ((1 - 3 / 4) / 2) = 1
   \<and> 3 / 4 \<le> (3 / 4 :: rat) \<and> (3 / 4 :: rat) \<le> 1"
proof -
  have o: "(1 - 3 / 4) / 2 = (1 / 8 :: rat)"
    by simp
  have "ddiv (dsub 1 (3 / 4)) 2 = 1 / 8"
    using loser_values by blast
  moreover have "dadd (dadd (3 / 4) (1 / 8)) (1 / 8) = 1"
    using sum_values by blast
  moreover have "dadd (dadd (1 / 8) (3 / 4)) (1 / 8) = 1"
    using sum_values by blast
  moreover have "3 / 4 \<le> (3 / 4 :: rat) \<and> (3 / 4 :: rat) \<le> 1"
    by simp
  ultimately show ?thesis
    unfolding o by blast
qed

lemma score_props_2:
  "ddiv (dsub 1 (7205759403792793 / 9007199254740992)) 2 = (1 - 7205759403792793 / 9007199254740992) / 2
   \<and> dadd (dadd (7205759403792793 / 9007199254740992) ((1 - 7205759403792793 / 9007199254740992) / 2)) ((1 - 7205759403792793 / 9007199254740992) / 2) = 1
   \<and> dadd (dadd ((1 - 7205759403792793 / 9007199254740992) / 2) (7205759403792793 / 9007199254740992)) ((1 - 7205759403792793 / 9007199254740992) / 2) = 1
   \<and> 3 / 4 \<le> (7205759403792793 / 9007199254740992 :: rat) \<and> (7205759403792793 / 9007199254740992 :: rat) \<le> 1"
proof -
  have o: "(1 - 7205759403792793 / 9007199254740992) / 2 = (1801439850948199 / 18014398509481984 :: rat)"
    by simp
  have "ddiv (dsub 1 (7205759403792793 / 9007199254740992)) 2 = 1801439850948199 / 18014398509481984"
    using loser_values by blast
  moreover have "dadd (dadd (7205759403792793 / 9007199254740992) (1801439850948199 / 18014398509481984)) (1801439850948199 / 18014398509481984) = 1"
    using sum_values by blast
  moreover have "dadd (dadd (1801439850948199 / 18014398509481984) (7205759403792793 / 9007199254740992)) (1801439850948199 / 18014398509481984) = 1"
    using sum_values by blast
  moreover have "3 / 4 \<le> (7205759403792793 / 9007199254740992 :: rat) \<and> (7205759403792793 / 9007199254740992 :: rat) \<le> 1"
    by simp
  ultimately show ?thesis
    unfolding o by blast
qed

lemma score_props_3:
  "ddiv (dsub 1 (7656119366529843 / 9007199254740992)) 2 = (1 - 7656119366529843 / 9007199254740992) / 2
   \<and> dadd (dadd (7656119366529843 / 9007199254740992) ((1 - 7656119366529843 / 9007199254740992) / 2)) ((1 - 7656119366529843 / 9007199254740992) / 2) = 1
   \<and> dadd (dadd ((1 - 7656119366529843 / 9007199254740992) / 2) (7656119366529843 / 9007199254740992)) ((1 - 7656119366529843 / 9007199254740992) / 2) = 1
   \<and> 3 / 4 \<le> (7656119366529843 / 9007199254740992 :: rat) \<and> (7656119366529843 / 9007199254740992 :: rat) \<le> 1"
proof -
  have o: "(1 - 7656119366529843 / 9007199254740992) / 2 = (1351079888211149 / 18014398509481984 :: rat)"
    by simp
  have "ddiv (dsub 1 (7656119366529843 / 9007199254740992)) 2 = 1351079888211149 / 18014398509481984"
    using loser_values by blast
  moreover have "dadd (dadd (7656119366529843 / 9007199254740992) (1351079888211149 / 18014398509481984)) (1351079888211149 / 18014398509481984) = 1"
    using sum_values by blast
  moreover have "dadd (dadd (1351079888211149 / 18014398509481984) (7656119366529843 / 9007199254740992)) (1351079888211149 / 18014398509481984) = 1"
    using sum_values by blast
  moreover have "3 / 4 \<le> (7656119366529843 / 9007199254740992 :: rat) \<and> (7656119366529843 / 9007199254740992 :: rat) \<le> 1"
    by simp
  ultimately show ?thesis
    unfolding o by blast
qed

lemma score_props_4:
  "ddiv (dsub 1 (2026619832316723 / 2251799813685248)) 2 = (1 - 2026619832316723 / 2251799813685248) / 2
   \<and> dadd (dadd (2026619832316723 / 2251799813685248) ((1 - 2026619832316723 / 2251799813685248) / 2)) ((1 - 2026619832316723 / 2251799813685248) / 2) = 1
   \<and> dadd (dadd ((1 - 2026619832316723 / 2251799813685248) / 2) (2026619832316723 / 2251799813685248)) ((1 - 2026619832316723 / 2251799813685248) / 2) = 1
   \<and> 3 / 4 \<le> (2026619832316723 / 2251799813685248 :: rat) \<and> (2026619832316723 / 2251799813685248 :: rat) \<le> 1"
proof -
  have o: "(1 - 2026619832316723 / 2251799813685248) / 2 = (225179981368525 / 4503599627370496 :: rat)"
    by simp
  have "ddiv (dsub 1 (2026619832316723 / 2251799813685248)) 2 = 225179981368525 / 4503599627370496"
    using loser_values by blast
  moreover have "dadd (dadd (2026619832316723 / 2251799813685248) (225179981368525 / 4503599627370496)) (225179981368525 / 4503599627370496) = 1"
    using sum_values by blast
  moreover have "dadd (dadd (225179981368525 / 4503599627370496) (2026619832316723 / 2251799813685248)) (225179981368525 / 4503599627370496) = 1"
    using sum_values by blast
  moreover have "3 / 4 \<le> (2026619832316723 / 2251799813685248 :: rat) \<and> (2026619832316723 / 2251799813685248 :: rat) \<le> 1"
    by simp
  ultimately show ?thesis
    unfolding o by blast
qed

lemma score_props_5:
  "ddiv (dsub 1 (4278419646001971 / 4503599627370496)) 2 = (1 - 4278419646001971 / 4503599627370496) / 2
   \<and> dadd (dadd (4278419646001971 / 4503599627370496) ((1 - 4278419646001971 / 4503599627370496) / 2)) ((1 - 4278419646001971 / 4503599627370496) / 2) = 1
   \<and> dadd (dadd ((1 - 4278419646001971 / 4503599627370496) / 2) (4278419646001971 / 4503599627370496)) ((1 - 4278419646001971 / 4503599627370496) / 2) = 1
   \<and> 3 / 4 \<le> (4278419646001971 / 4503599627370496 :: rat) \<and> (4278419646001971 / 4503599627370496 :: rat) \<le> 1"
proof -
  have o: "(1 - 4278419646001971 / 4503599627370496) / 2 = (225179981368525 / 9007199254740992 :: rat)"
    by simp
  have "ddiv (dsub 1 (4278419646001971 / 4503599627370496)) 2 = 225179981368525 / 9007199254740992"
    using loser_values by blast
  moreover have "dadd (dadd (4278419646001971 / 4503599627370496) (225179981368525 / 9007199254740992)) (225179981368525 / 9007199254740992) = 1"
    using sum_values by blast
  moreover have "dadd (dadd (225179981368525 / 9007199254740992) (4278419646001971 / 4503599627370496)) (225179981368525 / 9007199254740992) = 1"
    using sum_values by blast
  moreover have "3 / 4 \<le> (4278419646001971 / 4503599627370496 :: rat) \<and> (4278419646001971 / 4503599627370496 :: rat) \<le> 1"
    by simp
  ultimately show ?thesis
    unfolding o by blast
qed

lemma winner_props:
  fixes k :: nat
  assumes "1 \<le> k" and "k \<le> 10"
  shows "\<exists>c. Math_min (toDouble (95 / 100))
               (dadd (toDouble (7 / 10)) (dmul (of_nat k) (toDouble (5 / 100)))) = c
           \<and> \<bar>c - min (95 / 100) (70 / 100 + 5 / 100 * of_nat k)\<bar> \<le> 1 / 2 ^ 53
           \<and> ddiv (dsub 1 c) 2 = (1 - c) / 2
           \<and> dadd (dadd c ((1 - c) / 2)) ((1 - c) / 2) = 1
           \<and> dadd (dadd ((1 - c) / 2) c) ((1 - c) / 2) = 1
           \<and> 3 / 4 \<le> c \<and> c \<le> 1"
proof -
  from assms have "k = 1 \<or> k = 2 \<or> k = 3 \<or> k = 4 \<or> k = 5 \<or> k = 6 \<or> k = 7
    \<or> k = 8 \<or> k = 9 \<or> k = 10"
    by presburger
  then consider "k = 1" | "k = 2" | "k = 3" | "k = 4" | "k = 5" | "k = 6" | "k = 7"
    | "k = 8" | "k = 9" | "k = 10"
    by blast
  then show ?thesis
  proof cases
    case 1
    have e: "Math_min (toDouble (95 / 100))
       (dadd (toDouble (7 / 10)) (dmul (of_nat k) (toDouble (5 / 100))))
       = 3 / 4"
      unfolding 1 of_nat_1 using winner_values by blast
    have t: "\<bar>3 / 4 - min (95 / 100) (70 / 100 + 5 / 100 * of_nat k)\<bar> \<le> (1 / 2 ^ 53 :: rat)"
      unfolding 1 by simp
    from e t score_props_1 show ?thesis
      by blast
  next
    case 2
    have e: "Math_min (toDouble (95 / 100))
       (dadd (toDouble (7 / 10)) (dmul (of_nat k) (toDouble (5 / 100))))
       = 7205759403792793 / 9007199254740992"
      unfolding 2 of_nat_numeral using winner_values by blast
    have t: "\<bar>7205759403792793 / 9007199254740992 - min (95 / 100) (70 / 100 + 5 / 100 * of_nat k)\<bar> \<le> (1 / 2 ^ 53 :: rat)"
      unfolding 2 by simp
    from e t score_props_2 show ?thesis
      by blast
  next
    case 3
    have e: "Math_min (toDouble (95 / 100))
       (dadd (toDouble (7 / 10)) (dmul (of_nat k) (toDouble (5 / 100))))
       = 7656119366529843 / 9007199254740992"
      unfolding 3 of_nat_numeral using winner_values by blast
    have t: "\<bar>7656119366529843 / 9007199254740992 - min (95 / 100) (70 / 100 + 5 / 100 * of_nat k)\<bar> \<le> (1 / 2 ^ 53 :: rat)"
      unfolding 3 by simp
    from e t score_props_3 show ?thesis
      by blast
  next
    case 4
    have e: "Math_min (toDouble (95 / 100))
       (dadd (toDouble (7 / 10)) (dmul (of_nat k) (toDouble (5 / 100))))
       = 2026619832316723 / 2251799813685248"
      unfolding 4 of_nat_numeral using winner_values by blast
    have t: "\<bar>2026619832316723 / 2251799813685248 - min (95 / 100) (70 / 100 + 5 / 100 * of_nat k)\<bar> \<le> (1 / 2 ^ 53 :: rat)"
      unfolding 4 by simp
    from e t score_props_4 show ?thesis
      by blast
  next
    case 5
    have e: "Math_min (toDouble (95 / 100))
       (dadd (toDouble (7 / 10)) (dmul (of_nat k) (toDouble (5 / 100))))
       = 4278419646001971 / 4503599627370496"
      unfolding 5 of_nat_numeral using winner_values by blast
    have t: "\<bar>4278419646001971 / 4503599627370496 - min (95 / 100) (70 / 100 + 5 / 100 * of_nat k)\<bar> \<le> (1 / 2 ^ 53 :: rat)"
      unfolding 5 by simp
    from e t score_props_5 show ?thesis
      by blast
  next
    case 6
    have e: "Math_min (toDouble (95 / 100))
       (dadd (toDouble (7 / 10)) (dmul (of_nat k) (toDouble (5 / 100))))
       = 4278419646001971 / 4503599627370496"
      unfolding 6 of_nat_numeral using winner_values by blast
    have t: "\<bar>4278419646001971 / 4503599627370496 - min (95 / 100) (70 / 100 + 5 / 100 * of_nat k)\<bar> \<le> (1 / 2 ^ 53 :: rat)"
      unfolding 6 by simp
    from e t score_props_5 show ?thesis
      by blast
  next
    case 7
    have e: "Math_min (toDouble (95 / 100))
       (dadd (toDouble (7 / 10)) (dmul (of_nat k) (toDouble (5 / 100))))
       = 4278419646001971 / 4503599627370496"
      unfolding 7 of_nat_numeral using winner_values by blast
    have t: "\<bar>4278419646001971 / 4503599627370496 - min (95 / 100) (70 / 100 + 5 / 100 * of_nat k)\<bar> \<le> (1 / 2 ^ 53 :: rat)"
      unfolding 7 by simp
    from e t score_props_5 show ?thesis
      by blast
  next
    case 8
    have e: "Math_min (toDouble (95 / 100))
       (dadd (toDouble (7 / 10)) (dmul (of_nat k) (toDouble (5 / 100))))
       = 4278419646001971 / 4503599627370496"
      unfolding 8 of_nat_numeral using winner_values by blast
    have t: "\<bar>4278419646001971 / 4503599627370496 - min (95 / 100) (70 / 100 + 5 / 100 * of_nat k)\<bar> \<le> (1 / 2 ^ 53 :: rat)"
      unfolding 8 by simp
    from e t score_props_5 show ?thesis
      by blast
  next
    case 9
    have e: "Math_min (toDouble (95 / 100))
       (dadd (toDouble (7 / 10)) (dmul (of_nat k) (toDouble (5 / 100))))
       = 4278419646001971 / 4503599627370496"
      unfolding 9 of_nat_numeral using winner_values by blast
    have t: "\<bar>4278419646001971 / 4503599627370496 - min (95 / 100) (70 / 100 + 5 / 100 * of_nat k)\<bar> \<le> (1 / 2 ^ 53 :: rat)"
      unfolding 9 by simp
    from e t score_props_5 show ?thesis
      by blast
  next
    case 10
    have e: "Math_min (toDouble (95 / 100))
       (dadd (toDouble (7 / 10)) (dmul (of_nat k) (toDouble (5 / 100))))
       = 4278419646001971 / 4503599627370496"
      unfolding 10 of_nat_numeral using winner_values by blast
    have t: "\<bar>4278419646001971 / 4503599627370496 - min (95 / 100) (70 / 100 + 5 / 100 * of_nat k)\<bar> \<le> (1 / 2 ^ 53 :: rat)"
      unfolding 10 by simp
    from e t score_props_5 show ?thesis
      by blast
  qed
qed

lemma positiveCount_card:
  "positiveCount tx = card {w \<in> set positiveWords. sublist w (toLowerCase tx)}"
proof -
  have "distinct positiveWords" by (simp add: positiveWords_def)
  then show ?thesis
    by (simp add: positiveCount_def includes_str_sublist distinct_length_filter Int_def conj_commute)
qed

lemma negativeCount_card:
  "negativeCount tx = card {w \<in> set negativeWords. sublist w (toLowerCase tx)}"
proof -
  have "distinct negativeWords" by (simp add: negativeWords_def)
  then show ?thesis
    by (simp add: negativeCount_def includes_str_sublist distinct_length_filter Int_def conj_commute)
qed

lemma count_bounds: "positiveCount tx \<le> 10 \<and> negativeCount tx \<le> 9"
proof -
  have p: "length positiveWords = 10" by (simp add: positiveWords_def)
  have n: "length negativeWords = 9" by (simp add: negativeWords_def)
  have "positiveCount tx \<le> length positiveWords"
    unfolding positiveCount_def by (rule length_filter_le)
  moreover have "negativeCount tx \<le> length negativeWords"
    unfolding negativeCount_def by (rule length_filter_le)
  ultimately show ?thesis using p n by simp
qed

lemma fallback_numbers:
  "\<exists>c. fallbackConfidence tx = c \<and> 3 / 4 \<le> c \<and> c \<le> 1
        \<and> ddiv (dsub 1 c) 2 = (1 - c) / 2"
proof -
  consider (pos) "positiveCount tx > negativeCount tx"
    | (neg) "negativeCount tx > positiveCount tx"
    | (tie) "positiveCount tx = negativeCount tx"
    by linarith
  then show ?thesis
  proof cases
    case pos
    with count_bounds [of tx] have "1 \<le> positiveCount tx" and "positiveCount tx \<le> 10"
      by auto
    from winner_props [OF this] pos show ?thesis
      unfolding fallbackConfidence_def by auto
  next
    case neg
    with count_bounds [of tx] have "1 \<le> negativeCount tx" and "negativeCount tx \<le> 10"
      by auto
    from winner_props [OF this] neg show ?thesis
      unfolding fallbackConfidence_def by auto
  next
    case tie
    then have "fallbackConfidence tx = 3 / 4"
      unfolding fallbackConfidence_def using tie_value by simp
    with score_props_1 show ?thesis
      by blast
  qed
qed

lemma length_extractKeywords: "length (extractKeywords tx) \<le> 5"
  by (simp add: extractKeywords_def Let_def)

lemma structurallyValid_fallback: "structurallyValid (createFallbackAnalysis tx)"
proof -
  from fallback_numbers [of tx] obtain c where c: "fallbackConfidence tx = c"
    and b: "3 / 4 \<le> c" "c \<le> 1" and l: "ddiv (dsub 1 c) 2 = (1 - c) / 2"
    by blast
  from b have "0 \<le> (1 - c) / 2" and "(1 - c) / 2 \<le> 1" and "0 \<le> c"
    by simp_all
  with c b l length_extractKeywords [of tx] show ?thesis
    by (cases "fallbackSentiment tx")
       (auto simp: structurallyValid_def createFallbackAnalysis_def fallbackScore_def list_all_iff)
qed

lemma analyzeSentiment_total: "\<exists>r. analyzeSentiment b tx = Inr r"
  by (simp add: analyzeSentiment_def split: sum.splits)

lemma analyzeSentiment_failed:
  "backendFailed b \<Longrightarrow> analyzeSentiment b tx = Inr (createFallbackAnalysis tx)"
  by (cases b rule: backendFailed.cases) (simp_all add: analyzeSentiment_def analyzeSentiment_try_def)

lemma apiUsed_fallback: "apiUsed (createFallbackAnalysis tx) = Fallback"
  by (simp add: createFallbackAnalysis_def)

text \<open>
  Claim C1. Whatever the backend does, the single-text analysis returns a result; when the
  backend fails (no API key, a rejected call, a response that is not JSON) the result is
  the one of the fallback classifier, whose provenance is \<open>Fallback\<close> and which is
  structurally valid for every input text.
\<close>

theorem analyzeSentiment_backend_failure:
  "(\<exists>r. analyzeSentiment b tx = Inr r)
   \<and> (backendFailed b \<longrightarrow>
        analyzeSentiment b tx = Inr (createFallbackAnalysis tx))
   \<and> apiUsed (createFallbackAnalysis tx) = Fallback
   \<and> structurallyValid (createFallbackAnalysis tx)"
  using analyzeSentiment_total [of b tx] analyzeSentiment_failed [of b tx]
    apiUsed_fallback [of tx] structurallyValid_fallback [of tx]
  by blast

theorem analyzeSentiment_backend_failure_witness:
  "backendFailed (ResponseText None)
   \<and> analyzeSentiment (ResponseText None) ''1234'' = Inr (createFallbackAnalysis ''1234'')
   \<and> apiUsed (createFallbackAnalysis ''1234'') = Fallback
   \<and> structurallyValid (createFallbackAnalysis ''1234'')"
  using analyzeSentiment_backend_failure [of "ResponseText None" "''1234''"]
  by simp

lemma love_counts:
  "positiveCount ''I love this!'' = 1 \<and> negativeCount ''I love this!'' = 0"
  by code_simp

lemma one_hit_confidence:
  "positiveCount tx = 1 \<Longrightarrow> negativeCount tx = 0 \<Longrightarrow> fallbackConfidence tx = 3 / 4"
proof -
  assume p: "positiveCount tx = 1" and n: "negativeCount tx = 0"
  have "Math_min (toDouble (95 / 100))
          (dadd (toDouble (7 / 10)) (dmul (of_nat (1::nat)) (toDouble (5 / 100)))) = 3 / 4"
    unfolding of_nat_1 using winner_values by blast
  with p n show ?thesis
    unfolding fallbackConfidence_def by simp
qed

text \<open>
  Claim C3. For every input text the fallback result has the label of the larger count
  (neutral on a tie). Its confidence is \<^verbatim>\<open>Math.min(0.95, 0.7 + count * 0.05)\<close> for the
  winning count, computed in double arithmetic, which is within \<open>2^-53\<close> of the exact
  value of that formula, and is exactly 0.75 when neutral. The score of the winning label
  is the confidence and each other score is exactly half of one minus the confidence, so
  the three scores add up to exactly 1, also when they are added in double arithmetic.
  With a failed backend the text \<^verbatim>\<open>I love this!\<close> is positive with confidence exactly
  0.75 and provenance \<open>Fallback\<close>.
\<close>

theorem fallback_classifier_result:
  "\<exists>c p n u.
     confidence (createFallbackAnalysis tx) = JNum c
     \<and> scores (createFallbackAnalysis tx)
         = JObj [(''positive'', JNum p), (''negative'', JNum n), (''neutral'', JNum u)]
     \<and> (positiveCount tx > negativeCount tx \<longrightarrow>
          sentiment (createFallbackAnalysis tx) = JStr ''positive''
          \<and> c = Math_min (toDouble (95 / 100))
                  (dadd (toDouble (7 / 10))
                     (dmul (of_nat (positiveCount tx)) (toDouble (5 / 100))))
          \<and> \<bar>c - min (95 / 100) (70 / 100 + 5 / 100 * of_nat (positiveCount tx))\<bar>
              \<le> 1 / 2 ^ 53
          \<and> p = c \<and> n = (1 - c) / 2 \<and> u = (1 - c) / 2)
     \<and> (negativeCount tx > positiveCount tx \<longrightarrow>
          sentiment (createFallbackAnalysis tx) = JStr ''negative''
          \<and> c = Math_min (toDouble (95 / 100))
                  (dadd (toDouble (7 / 10))
                     (dmul (of_nat (negativeCount tx)) (toDouble (5 / 100))))
          \<and> \<bar>c - min (95 / 100) (70 / 100 + 5 / 100 * of_nat (negativeCount tx))\<bar>
              \<le> 1 / 2 ^ 53
          \<and> n = c \<and> p = (1 - c) / 2 \<and> u = (1 - c) / 2)
     \<and> (positiveCount tx = negativeCount tx \<longrightarrow>
          sentiment (createFallbackAnalysis tx) = JStr ''neutral''
          \<and> c = 75 / 100
          \<and> u = c \<and> p = (1 - c) / 2 \<and> n = (1 - c) / 2)
     \<and> p + n + u = 1
     \<and> dadd (dadd p n) u = 1
     \<and> (\<forall>b. backendFailed b \<longrightarrow>
          (\<exists>r. analyzeSentiment b ''I love this!'' = Inr r
               \<and> sentiment r = JStr ''positive''
               \<and> confidence r = JNum (75 / 100)
               \<and> apiUsed r = Fallback))"
proof -
  have ex: "\<forall>b. backendFailed b \<longrightarrow>
          (\<exists>r. analyzeSentiment b ''I love this!'' = Inr r
               \<and> sentiment r = JStr ''positive''
               \<and> confidence r = JNum (75 / 100)
               \<and> apiUsed r = Fallback)"
    using love_counts one_hit_confidence [of "''I love this!''"]
    by (simp add: analyzeSentiment_failed createFallbackAnalysis_def fallbackSentiment_def)
  consider (pos) "positiveCount tx > negativeCount tx"
    | (neg) "negativeCount tx > positiveCount tx"
    | (tie) "positiveCount tx = negativeCount tx"
    by linarith
  then show ?thesis
  proof cases
    case pos
    with count_bounds [of tx] have "1 \<le> positiveCount tx" and "positiveCount tx \<le> 10"
      by auto
    from winner_props [OF this] obtain c where
      c: "Math_min (toDouble (95 / 100))
            (dadd (toDouble (7 / 10)) (dmul (of_nat (positiveCount tx)) (toDouble (5 / 100)))) = c"
      and t: "\<bar>c - min (95 / 100) (70 / 100 + 5 / 100 * of_nat (positiveCount tx))\<bar> \<le> 1 / 2 ^ 53"
      and l: "ddiv (dsub 1 c) 2 = (1 - c) / 2"
      and s: "dadd (dadd c ((1 - c) / 2)) ((1 - c) / 2) = 1"
      by blast
    from pos c have fc: "fallbackConfidence tx = c"
      unfolding fallbackConfidence_def by simp
    from pos have fs: "fallbackSentiment tx = Positive"
      by (simp add: fallbackSentiment_def)
    have sc: "fallbackScore tx Positive = c" "fallbackScore tx Negative = (1 - c) / 2"
      "fallbackScore tx Neutral = (1 - c) / 2"
      using fc fs l by (simp_all add: fallbackScore_def)
    have sum: "c + (1 - c) / 2 + (1 - c) / 2 = 1"
      by simp
    have r: "confidence (createFallbackAnalysis tx) = JNum c"
      by (simp add: createFallbackAnalysis_def fc)
    have o: "scores (createFallbackAnalysis tx)
         = JObj [(''positive'', JNum (c)), (''negative'', JNum ((1 - c) / 2)),
                 (''neutral'', JNum ((1 - c) / 2))]"
      by (simp add: createFallbackAnalysis_def sc)
    have g: "sentiment (createFallbackAnalysis tx) = JStr ''positive''"
      by (simp add: createFallbackAnalysis_def fs)
    from pos have x: "\<not> (negativeCount tx > positiveCount tx)" "\<not> (positiveCount tx = negativeCount tx)"
      by simp_all
    from pos r o g x c [symmetric] t s sum ex show ?thesis
      by blast
  next
    case neg
    with count_bounds [of tx] have "1 \<le> negativeCount tx" and "negativeCount tx \<le> 10"
      by auto
    from winner_props [OF this] obtain c where
      c: "Math_min (toDouble (95 / 100))
            (dadd (toDouble (7 / 10)) (dmul (of_nat (negativeCount tx)) (toDouble (5 / 100)))) = c"
      and t: "\<bar>c - min (95 / 100) (70 / 100 + 5 / 100 * of_nat (negativeCount tx))\<bar> \<le> 1 / 2 ^ 53"
      and l: "ddiv (dsub 1 c) 2 = (1 - c) / 2"
      and s: "dadd (dadd ((1 - c) / 2) c) ((1 - c) / 2) = 1"
      by blast
    from neg c have fc: "fallbackConfidence tx = c"
      unfolding fallbackConfidence_def by simp
    from neg have fs: "fallbackSentiment tx = Negative"
      by (simp add: fallbackSentiment_def)
    have sc: "fallbackScore tx Negative = c" "fallbackScore tx Positive = (1 - c) / 2"
      "fallbackScore tx Neutral = (1 - c) / 2"
      using fc fs l by (simp_all add: fallbackScore_def)
    have sum: "(1 - c) / 2 + c + (1 - c) / 2 = 1"
      by simp
    have r: "confidence (createFallbackAnalysis tx) = JNum c"
      by (simp add: createFallbackAnalysis_def fc)
    have o: "scores (createFallbackAnalysis tx)
         = JObj [(''positive'', JNum ((1 - c) / 2)), (''negative'', JNum (c)),
                 (''neutral'', JNum ((1 - c) / 2))]"
      by (simp add: createFallbackAnalysis_def sc)
    have g: "sentiment (createFallbackAnalysis tx) = JStr ''negative''"
      by (simp add: createFallbackAnalysis_def fs)
    from neg have x: "\<not> (positiveCount tx > negativeCount tx)" "\<not> (positiveCount tx = negativeCount tx)"
      by simp_all
    from neg r o g x c [symmetric] t s sum ex show ?thesis
      by blast
  next
    case tie
    have fc: "fallbackConfidence tx = 3 / 4"
      using tie unfolding fallbackConfidence_def using tie_value by simp
    from tie have fs: "fallbackSentiment tx = Neutral"
      by (simp add: fallbackSentiment_def)
    have l: "ddiv (dsub 1 (3 / 4)) 2 = 1 / 8"
      using loser_values by blast
    have sc: "fallbackScore tx Neutral = 3 / 4" "fallbackScore tx Positive = 1 / 8"
      "fallbackScore tx Negative = 1 / 8"
      unfolding fallbackScore_def fc fs using l by simp_all
    have s: "dadd (dadd (1 / 8) (1 / 8)) (3 / 4) = 1"
      using sum_values by blast
    have r: "confidence (createFallbackAnalysis tx) = JNum (3 / 4)"
      by (simp add: createFallbackAnalysis_def fc)
    have o: "scores (createFallbackAnalysis tx)
         = JObj [(''positive'', JNum (1 / 8)), (''negative'', JNum (1 / 8)),
                 (''neutral'', JNum (3 / 4))]"
      by (simp add: createFallbackAnalysis_def sc)
    have g: "sentiment (createFallbackAnalysis tx) = JStr ''neutral''"
      by (simp add: createFallbackAnalysis_def fs)
    from tie have x: "\<not> (positiveCount tx > negativeCount tx)" "\<not> (negativeCount tx > positiveCount tx)"
      by simp_all
    have v: "(3 / 4 :: rat) = 75 / 100" "(1 / 8 :: rat) = (1 - 3 / 4) / 2"
      by simp_all
    have sum: "(1 / 8 :: rat) + 1 / 8 + 3 / 4 = 1"
      by simp
    from tie r o g x v s sum ex show ?thesis
      by blast
  qed
qed

theorem fallback_classifier_result_witness:
  "positiveCount ''I love this!'' > negativeCount ''I love this!''
   \<and> sentiment (createFallbackAnalysis ''I love this!'') = JStr ''positive''
   \<and> confidence (createFallbackAnalysis ''I love this!'') = JNum (3 / 4)
   \<and> scores (createFallbackAnalysis ''I love this!'')
       = JObj [(''positive'', JNum (3 / 4)),
               (''negative'', JNum (1 / 8)),
               (''neutral'', JNum (1 / 8))]
   \<and> positiveCount ''good and great'' > negativeCount ''good and great''
   \<and> sentiment (createFallbackAnalysis ''good and great'') = JStr ''positive''
   \<and> confidence (createFallbackAnalysis ''good and great'') = JNum (7205759403792793 / 9007199254740992)
   \<and> scores (createFallbackAnalysis ''good and great'')
       = JObj [(''positive'', JNum (7205759403792793 / 9007199254740992)),
               (''negative'', JNum (1801439850948199 / 18014398509481984)),
               (''neutral'', JNum (1801439850948199 / 18014398509481984))]
   \<and> negativeCount ''Bad, awful and sad'' > positiveCount ''Bad, awful and sad''
   \<and> sentiment (createFallbackAnalysis ''Bad, awful and sad'') = JStr ''negative''
   \<and> confidence (createFallbackAnalysis ''Bad, awful and sad'') = JNum (7656119366529843 / 9007199254740992)
   \<and> scores (createFallbackAnalysis ''Bad, awful and sad'')
       = JObj [(''positive'', JNum (1351079888211149 / 18014398509481984)),
               (''negative'', JNum (7656119366529843 / 9007199254740992)),
               (''neutral'', JNum (1351079888211149 / 18014398509481984))]
   \<and> positiveCount ''good but poor'' = negativeCount ''good but poor''
   \<and> sentiment (createFallbackAnalysis ''good but poor'') = JStr ''neutral''
   \<and> confidence (createFallbackAnalysis ''good but poor'') = JNum (75 / 100)
   \<and> scores (createFallbackAnalysis ''good but poor'')
       = JObj [(''positive'', JNum (1 / 8)),
               (''negative'', JNum (1 / 8)),
               (''neutral'', JNum (75 / 100))]
   \<and> backendFailed ApiKeyNotSet
   \<and> (\<exists>r. analyzeSentiment ApiKeyNotSet ''I love this!'' = Inr r
         \<and> sentiment r = JStr ''positive''
         \<and> confidence r = JNum (75 / 100)
         \<and> apiUsed r = Fallback)"
proof -
  have k1: "positiveCount ''I love this!'' = 1" "negativeCount ''I love this!'' = 0"
    by code_simp+
  have g1: "positiveCount ''I love this!'' > negativeCount ''I love this!''"
    unfolding k1 by simp
  from fallback_classifier_result [of "''I love this!''"] obtain c p n u where
    a: "confidence (createFallbackAnalysis ''I love this!'') = JNum c"
    and b: "scores (createFallbackAnalysis ''I love this!'')
         = JObj [(''positive'', JNum p), (''negative'', JNum n), (''neutral'', JNum u)]"
    and d: "positiveCount ''I love this!'' > negativeCount ''I love this!'' \<longrightarrow>
          sentiment (createFallbackAnalysis ''I love this!'') = JStr ''positive''
          \<and> c = Math_min (toDouble (95 / 100))
            (dadd (toDouble (7 / 10)) (dmul (of_nat (positiveCount ''I love this!'')) (toDouble (5 / 100))))
          \<and> \<bar>c - min (95 / 100) (70 / 100 + 5 / 100 * of_nat (positiveCount ''I love this!''))\<bar>
              \<le> 1 / 2 ^ 53
          \<and> p = c \<and> n = (1 - c) / 2 \<and> u = (1 - c) / 2"
    by blast
  from d g1 have s: "sentiment (createFallbackAnalysis ''I love this!'') = JStr ''positive''"
    and c: "c = Math_min (toDouble (95 / 100))
            (dadd (toDouble (7 / 10)) (dmul (of_nat (positiveCount ''I love this!'')) (toDouble (5 / 100))))"
    and w: "p = c" and l: "n = (1 - c) / 2" "u = (1 - c) / 2"
    by blast+
  have v: "Math_min (toDouble (95 / 100))
            (dadd (toDouble (7 / 10)) (dmul (of_nat (positiveCount ''I love this!'')) (toDouble (5 / 100))))
      = 3 / 4"
    unfolding k1 of_nat_1 using winner_values by blast
  have h: "(1 - 3 / 4) / 2 = (1 / 8 :: rat)"
    by simp
  have r1: "positiveCount ''I love this!'' > negativeCount ''I love this!''
     \<and> sentiment (createFallbackAnalysis ''I love this!'') = JStr ''positive''
     \<and> confidence (createFallbackAnalysis ''I love this!'') = JNum (3 / 4)
     \<and> scores (createFallbackAnalysis ''I love this!'')
         = JObj [(''positive'', JNum (3 / 4)),
                 (''negative'', JNum (1 / 8)),
                 (''neutral'', JNum (1 / 8))]"
    using g1 s a b unfolding w l c v h by blast
  have k2: "positiveCount ''good and great'' = 2" "negativeCount ''good and great'' = 0"
    by code_simp+
  have g2: "positiveCount ''good and great'' > negativeCount ''good and great''"
    unfolding k2 by simp
  from fallback_classifier_result [of "''good and great''"] obtain c p n u where
    a: "confidence (createFallbackAnalysis ''good and great'') = JNum c"
    and b: "scores (createFallbackAnalysis ''good and great'')
         = JObj [(''positive'', JNum p), (''negative'', JNum n), (''neutral'', JNum u)]"
    and d: "positiveCount ''good and great'' > negativeCount ''good and great'' \<longrightarrow>
          sentiment (createFallbackAnalysis ''good and great'') = JStr ''positive''
          \<and> c = Math_min (toDouble (95 / 100))
            (dadd (toDouble (7 / 10)) (dmul (of_nat (positiveCount ''good and great'')) (toDouble (5 / 100))))
          \<and> \<bar>c - min (95 / 100) (70 / 100 + 5 / 100 * of_nat (positiveCount ''good and great''))\<bar>
              \<le> 1 / 2 ^ 53
          \<and> p = c \<and> n = (1 - c) / 2 \<and> u = (1 - c) / 2"
    by blast
  from d g2 have s: "sentiment (createFallbackAnalysis ''good and great'') = JStr ''positive''"
    and c: "c = Math_min (toDouble (95 / 100))
            (dadd (toDouble (7 / 10)) (dmul (of_nat (positiveCount ''good and great'')) (toDouble (5 / 100))))"
    and w: "p = c" and l: "n = (1 - c) / 2" "u = (1 - c) / 2"
    by blast+
  have v: "Math_min (toDouble (95 / 100))
            (dadd (toDouble (7 / 10)) (dmul (of_nat (positiveCount ''good and great'')) (toDouble (5 / 100))))
      = 7205759403792793 / 9007199254740992"
    unfolding k2 of_nat_numeral using winner_values by blast
  have h: "(1 - 7205759403792793 / 9007199254740992) / 2 = (1801439850948199 / 18014398509481984 :: rat)"
    by simp
  have r2: "positiveCount ''good and great'' > negativeCount ''good and great''
     \<and> sentiment (createFallbackAnalysis ''good and great'') = JStr ''positive''
     \<and> confidence (createFallbackAnalysis ''good and great'') = JNum (7205759403792793 / 9007199254740992)
     \<and> scores (createFallbackAnalysis ''good and great'')
         = JObj [(''positive'', JNum (7205759403792793 / 9007199254740992)),
                 (''negative'', JNum (1801439850948199 / 18014398509481984)),
                 (''neutral'', JNum (1801439850948199 / 18014398509481984))]"
    using g2 s a b unfolding w l c v h by blast
  have k3: "positiveCount ''Bad, awful and sad'' = 0" "negativeCount ''Bad, awful and sad'' = 3"
    by code_simp+
  have g3: "negativeCount ''Bad, awful and sad'' > positiveCount ''Bad, awful and sad''"
    unfolding k3 by simp
  from fallback_classifier_result [of "''Bad, awful and sad''"] obtain c p n u where
    a: "confidence (createFallbackAnalysis ''Bad, awful and sad'') = JNum c"
    and b: "scores (createFallbackAnalysis ''Bad, awful and sad'')
         = JObj [(''positive'', JNum p), (''negative'', JNum n), (''neutral'', JNum u)]"
    and d: "negativeCount ''Bad, awful and sad'' > positiveCount ''Bad, awful and sad'' \<longrightarrow>
          sentiment (createFallbackAnalysis ''Bad, awful and sad'') = JStr ''negative''
          \<and> c = Math_min (toDouble (95 / 100))
            (dadd (toDouble (7 / 10)) (dmul (of_nat (negativeCount ''Bad, awful and sad'')) (toDouble (5 / 100))))
          \<and> \<bar>c - min (95 / 100) (70 / 100 + 5 / 100 * of_nat (negativeCount ''Bad, awful and sad''))\<bar>
              \<le> 1 / 2 ^ 53
          \<and> n = c \<and> p = (1 - c) / 2 \<and> u = (1 - c) / 2"
    by blast
  from d g3 have s: "sentiment (createFallbackAnalysis ''Bad, awful and sad'') = JStr ''negative''"
    and c: "c = Math_min (toDouble (95 / 100))
            (dadd (toDouble (7 / 10)) (dmul (of_nat (negativeCount ''Bad, awful and sad'')) (toDouble (5 / 100))))"
    and w: "n = c" and l: "p = (1 - c) / 2" "u = (1 - c) / 2"
    by blast+
  have v: "Math_min (toDouble (95 / 100))
            (dadd (toDouble (7 / 10)) (dmul (of_nat (negativeCount ''Bad, awful and sad'')) (toDouble (5 / 100))))
      = 7656119366529843 / 9007199254740992"
    unfolding k3 of_nat_numeral using winner_values by blast
  have h: "(1 - 7656119366529843 / 9007199254740992) / 2 = (1351079888211149 / 18014398509481984 :: rat)"
    by simp
  have r3: "negativeCount ''Bad, awful and sad'' > positiveCount ''Bad, awful and sad''
     \<and> sentiment (createFallbackAnalysis ''Bad, awful and sad'') = JStr ''negative''
     \<and> confidence (createFallbackAnalysis ''Bad, awful and sad'') = JNum (7656119366529843 / 9007199254740992)
     \<and> scores (createFallbackAnalysis ''Bad, awful and sad'')
         = JObj [(''positive'', JNum (1351079888211149 / 18014398509481984)),
                 (''negative'', JNum (7656119366529843 / 9007199254740992)),
                 (''neutral'', JNum (1351079888211149 / 18014398509481984))]"
    using g3 s a b unfolding w l c v h by blast
  have k4: "positiveCount ''good but poor'' = 1" "negativeCount ''good but poor'' = 1"
    by code_simp+
  have g4: "positiveCount ''good but poor'' = negativeCount ''good but poor''"
    unfolding k4 by simp
  from fallback_classifier_result [of "''good but poor''"] obtain c p n u where
    a: "confidence (createFallbackAnalysis ''good but poor'') = JNum c"
    and b: "scores (createFallbackAnalysis ''good but poor'')
         = JObj [(''positive'', JNum p), (''negative'', JNum n), (''neutral'', JNum u)]"
    and d: "positiveCount ''good but poor'' = negativeCount ''good but poor'' \<longrightarrow>
          sentiment (createFallbackAnalysis ''good but poor'') = JStr ''neutral''
          \<and> c = 75 / 100
          \<and> u = c \<and> p = (1 - c) / 2 \<and> n = (1 - c) / 2"
    and e: "\<forall>b. backendFailed b \<longrightarrow>
          (\<exists>r. analyzeSentiment b ''I love this!'' = Inr r
               \<and> sentiment r = JStr ''positive''
               \<and> confidence r = JNum (75 / 100)
               \<and> apiUsed r = Fallback)"
    by blast
  from d g4 have s: "sentiment (createFallbackAnalysis ''good but poor'') = JStr ''neutral''"
    and c: "c = 75 / 100"
    and w: "u = c" and l: "p = (1 - c) / 2" "n = (1 - c) / 2"
    by blast+
  have h: "(1 - 75 / 100) / 2 = (1 / 8 :: rat)"
    by simp
  have r4: "positiveCount ''good but poor'' = negativeCount ''good but poor''
     \<and> sentiment (createFallbackAnalysis ''good but poor'') = JStr ''neutral''
     \<and> confidence (createFallbackAnalysis ''good but poor'') = JNum (75 / 100)
     \<and> scores (createFallbackAnalysis ''good but poor'')
         = JObj [(''positive'', JNum (1 / 8)),
                 (''negative'', JNum (1 / 8)),
                 (''neutral'', JNum (75 / 100))]"
    using g4 s a b unfolding w l c h by blast
  have f: "backendFailed ApiKeyNotSet"
    by simp
  with e have x: "backendFailed ApiKeyNotSet
     \<and> (\<exists>r. analyzeSentiment ApiKeyNotSet ''I love this!'' = Inr r
           \<and> sentiment r = JStr ''positive''
           \<and> confidence r = JNum (75 / 100)
           \<and> apiUsed r = Fallback)"
    by blast
  from r1 r2 r3 r4 x show ?thesis
    by blast
qed

text \<open>
  Claim C10. Each count is the number of lexicon words that occur somewhere in the
  lower-cased text, every word counted once however often it occurs: a text that repeats
  \<^verbatim>\<open>love\<close> has one positive signal and confidence 0.75, and \<^verbatim>\<open>sadly\<close> gives one
  negative signal through \<^verbatim>\<open>sad\<close>.
\<close>

theorem lexicon_counts:
  "positiveCount tx = card {w \<in> set positiveWords. sublist w (toLowerCase tx)}
   \<and> negativeCount tx = card {w \<in> set negativeWords. sublist w (toLowerCase tx)}
   \<and> positiveCount tx \<le> 10 \<and> negativeCount tx \<le> 9
   \<and> positiveCount ''love love LOVE love lovely'' = 1
   \<and> confidence (createFallbackAnalysis ''love love LOVE love lovely'') = JNum (75 / 100)
   \<and> negativeCount ''She left sadly'' = 1
   \<and> sentiment (createFallbackAnalysis ''She left sadly'') = JStr ''negative''"
proof -
  have a: "positiveCount ''love love LOVE love lovely'' = 1
           \<and> negativeCount ''love love LOVE love lovely'' = 0"
    by code_simp
  have b: "negativeCount ''She left sadly'' = 1 \<and> positiveCount ''She left sadly'' = 0"
    by code_simp
  from a have c: "fallbackConfidence ''love love LOVE love lovely'' = 3 / 4"
    using one_hit_confidence by blast
  have d: "confidence (createFallbackAnalysis ''love love LOVE love lovely'') = JNum (75 / 100)"
    unfolding createFallbackAnalysis_def using c by simp
  have e: "sentiment (createFallbackAnalysis ''She left sadly'') = JStr ''negative''"
    using b by (simp add: createFallbackAnalysis_def fallbackSentiment_def)
  from positiveCount_card [of tx] negativeCount_card [of tx] count_bounds [of tx] a b d e
  show ?thesis
    by blast
qed

subsection \<open>The handlers\<close>

lemma firstInvalid_None_iff:
  "firstInvalid ts = None \<longleftrightarrow> list_all (\<lambda>t. valid (isValidTextInput t)) ts"
  by (induction ts) auto

lemma validationMessage_invalid:
  "\<not> valid (isValidTextInput t) \<Longrightarrow>
   validationMessage (isValidTextInput t)
     = (if \<not> list_ex isLetter t then lettersMessage else punctuationMessage)"
  by (simp add: isValidTextInput_def split: if_splits)

lemma Promise_all_map_Inr:
  "\<forall>t\<in>set ts. analyze t = Inr (f t) \<Longrightarrow> Promise_all (map analyze ts) = Inr (map f ts)"
  by (induction ts) auto

lemma handleAnalyze_invalid:
  "firstInvalid (textsOf input) = Some m \<Longrightarrow>
   handleAnalyze analyze input s = s\<lparr> apiStatus := \<lparr> status = StatusError, message = m \<rparr> \<rparr>"
  by (simp add: handleAnalyze_def)

lemma handleAnalyze_quota:
  "firstInvalid (textsOf input) = None \<Longrightarrow>
   analysisCount s + length (textsOf input) > MAX_ANALYSES \<Longrightarrow>
   handleAnalyze analyze input s
     = s\<lparr> apiStatus := \<lparr> status = StatusError,
                        message = quotaMessage (int MAX_ANALYSES - int (analysisCount s)) \<rparr> \<rparr>"
  by (simp add: handleAnalyze_def Let_def)

lemma handleAnalyze_resolved:
  "firstInvalid (textsOf input) = None \<Longrightarrow>
   analysisCount s + length (textsOf input) \<le> MAX_ANALYSES \<Longrightarrow>
   \<forall>t\<in>set (textsOf input). analyze t = Inr (f t) \<Longrightarrow>
   textsOf input \<noteq> [] \<Longrightarrow>
   handleAnalyze analyze input s
     = s\<lparr> results := map f (textsOf input) @ results s,
          analysisCount := analysisCount s + length (textsOf input),
          currentSentiment := Some (sentiment (f (hd (textsOf input)))),
          apiStatus := \<lparr> status = StatusSuccess,
                         message = completeMessage (length (textsOf input)) \<rparr>,
          isLoading := False \<rparr>"
proof -
  assume a: "firstInvalid (textsOf input) = None"
    and b: "analysisCount s + length (textsOf input) \<le> MAX_ANALYSES"
    and c: "\<forall>t\<in>set (textsOf input). analyze t = Inr (f t)"
    and d: "textsOf input \<noteq> []"
  from c have p: "Promise_all (map analyze (textsOf input)) = Inr (map f (textsOf input))"
    by (rule Promise_all_map_Inr)
  from d obtain t ts where e: "textsOf input = t # ts"
    by (cases "textsOf input") auto
  show ?thesis
    using a b p
    by (simp add: handleAnalyze_def Let_def e)
qed

lemma handleAnalyze_empty:
  "textsOf input = [] \<Longrightarrow> analysisCount s \<le> MAX_ANALYSES \<Longrightarrow>
   handleAnalyze analyze input s
     = s\<lparr> results := results s, analysisCount := analysisCount s,
          apiStatus := \<lparr> status = StatusError, message = analysisFailedMessage \<rparr>, isLoading := False \<rparr>"
  by (simp add: handleAnalyze_def Let_def MAX_ANALYSES_def)


lemma handleCompare_count:
  "analysisCount (handleCompare compare textA textB s)
     = analysisCount s
       + (if analysisCount s < MAX_ANALYSES
             \<and> valid (isValidTextInput textA) \<and> valid (isValidTextInput textB)
             \<and> \<not> isl (compare textA textB)
          then 1 else 0)"
  by (auto simp: handleCompare_def split: sum.splits)

lemma handleCompare_results:
  "results (handleCompare compare textA textB s) = results s"
  by (auto simp: handleCompare_def split: sum.splits)

lemma analyzeSentiment_projr:
  "analyzeSentiment b tx = Inr (projr (analyzeSentiment b tx))"
  using analyzeSentiment_total [of b tx] by auto

lemma step_analyze:
  "analysisCount (step s (AnalyzeRequest input backends))
     = analysisCount s + analysesCompleted s (AnalyzeRequest input backends)
   \<and> length (results (step s (AnalyzeRequest input backends)))
     = length (results s) + analysesCompleted s (AnalyzeRequest input backends)"
proof (cases "firstInvalid (textsOf input)")
  case (Some m)
  then have "\<not> list_all (\<lambda>t. valid (isValidTextInput t)) (textsOf input)"
    using firstInvalid_None_iff [of "textsOf input"] by simp
  with Some show ?thesis
    by (simp add: handleAnalyze_invalid)
next
  case None
  then have v: "list_all (\<lambda>t. valid (isValidTextInput t)) (textsOf input)"
    by (simp add: firstInvalid_None_iff)
  show ?thesis
  proof (cases "analysisCount s + length (textsOf input) > MAX_ANALYSES")
    case True
    with None v show ?thesis
      by (simp add: handleAnalyze_quota)
  next
    case False
    then have le: "analysisCount s + length (textsOf input) \<le> MAX_ANALYSES" by simp
    show ?thesis
    proof (cases "textsOf input = []")
      case True
      with le show ?thesis
        by (simp add: handleAnalyze_empty)
    next
      case ne: False
      have "\<forall>t\<in>set (textsOf input).
              (\<lambda>t. analyzeSentiment (backends t) t) t
                = Inr ((\<lambda>t. projr (analyzeSentiment (backends t) t)) t)"
        using analyzeSentiment_projr by simp
      from handleAnalyze_resolved [OF None le this ne] v le show ?thesis
        by simp
    qed
  qed
qed

lemma compareSentiments_isl: "isl (compareSentiments b textA textB) \<longleftrightarrow> backendFailed b"
  by (cases b rule: backendFailed.cases) (simp_all add: compareSentiments_def)

lemma step_count:
  "analysisCount (step s e) = analysisCount s + analysesCompleted s e + comparisonsCompleted s e"
proof (cases e)
  case (AnalyzeRequest input backends)
  then show ?thesis using step_analyze by simp
next
  case (CompareRequest textA textB b)
  then show ?thesis by (simp add: handleCompare_count compareSentiments_isl)
qed

lemma step_results:
  "length (results (step s e)) = length (results s) + analysesCompleted s e"
proof (cases e)
  case (AnalyzeRequest input backends)
  then show ?thesis using step_analyze by simp
next
  case (CompareRequest textA textB b)
  then show ?thesis by (simp add: handleCompare_results)
qed

lemma step_bound:
  "analysisCount s \<le> MAX_ANALYSES \<Longrightarrow> analysisCount (step s e) \<le> MAX_ANALYSES"
  using step_count [of s e]
  by (cases e) (auto split: if_splits)

lemma run_invariant:
  "analysisCount s \<le> MAX_ANALYSES \<Longrightarrow>
   analysisCount (run s es) \<le> MAX_ANALYSES
   \<and> analysisCount (run s es) = analysisCount s + totalAnalyses s es + totalComparisons s es
   \<and> length (results (run s es)) = length (results s) + totalAnalyses s es"
proof (induction es arbitrary: s)
  case Nil
  then show ?case by simp
next
  case (Cons e es)
  from Cons.prems have "analysisCount (step s e) \<le> MAX_ANALYSES"
    by (rule step_bound)
  from Cons.IH [OF this] show ?case
    by (simp add: step_count step_results)
qed

text \<open>
  Claim C2. After any sequence of analyze, batch and compare requests, served one after
  the other from the initial state, the counter is at most 15 and equals the number of
  analyses that completed plus the number of comparisons that succeeded; the history
  holds one result for each completed analysis. Rejected and failed requests add nothing.
\<close>

theorem quota_invariant:
  "analysisCount (run initial_state es) \<le> 15
   \<and> analysisCount (run initial_state es)
       = totalAnalyses initial_state es + totalComparisons initial_state es
   \<and> length (results (run initial_state es)) = totalAnalyses initial_state es"
proof -
  have "analysisCount initial_state \<le> MAX_ANALYSES"
    by (simp add: initial_state_def)
  from run_invariant [OF this, of es] show ?thesis
    by (simp add: initial_state_def MAX_ANALYSES_def)
qed

lemmas char_eval = isValidTextInput_def isLetter_def isLower_def isUpper_def isForbidden_def code_def

theorem quota_invariant_witness:
  "totalAnalyses initial_state sampleSession = 14
   \<and> totalComparisons initial_state sampleSession = 1
   \<and> analysisCount (run initial_state sampleSession) = 15
   \<and> length (results (run initial_state sampleSession)) = 14"
proof -
  have t: "totalAnalyses initial_state sampleSession = 14
           \<and> totalComparisons initial_state sampleSession = 1"
    by (simp add: sampleSession_def handleAnalyze_def handleCompare_def char_eval
        initial_state_def MAX_ANALYSES_def compareSentiments_def analyzeSentiment_def
        analyzeSentiment_try_def)
  from quota_invariant [of sampleSession] t show ?thesis
    by presburger
qed

lemma getProp_ownProp:
  "payload \<noteq> JNull \<Longrightarrow> payload \<noteq> JUndefined \<Longrightarrow> getProp payload name = Inr (ownProp payload name)"
  by (cases payload) (simp_all split: option.splits)

lemma analyzeSentiment_null:
  "payload = JNull \<or> payload = JUndefined \<Longrightarrow>
   analyzeSentiment (ResponseText (Some payload)) tx = Inr (createFallbackAnalysis tx)"
  by (auto simp: analyzeSentiment_def analyzeSentiment_try_def)

lemma analyzeSentiment_object:
  "payload \<noteq> JNull \<Longrightarrow> payload \<noteq> JUndefined \<Longrightarrow>
   analyzeSentiment (ResponseText (Some payload)) tx =
     Inr \<lparr> sourceText = tx,
           sentiment = ownProp payload ''sentiment'',
           confidence = ownProp payload ''confidence'',
           scores = ownProp payload ''scores'',
           keywordList = ownProp payload ''keywords'',
           explanation = ownProp payload ''explanation'',
           sentenceBreakdown =
             (if falsy (ownProp payload ''sentenceBreakdown'') then JArr []
              else ownProp payload ''sentenceBreakdown''),
           apiUsed = Gemini \<rparr>"
  by (simp add: analyzeSentiment_def analyzeSentiment_try_def getProp_ownProp)

text \<open>
  Claim C4, as amended. A payload that parses is not checked against the output contract:
  unless it is \<^verbatim>\<open>null\<close>, the result has provenance \<open>Gemini\<close> and carries the payload's
  properties as they are (\<^verbatim>\<open>undefined\<close> where one is missing), with no clamping; only the
  sentence breakdown is replaced, by an empty array, when it is falsy. The fallback is used
  exactly when the call fails before a payload is parsed or the payload is \<^verbatim>\<open>null\<close>.
\<close>

theorem analyzeSentiment_payload_unvalidated:
  "analyzeSentiment (ResponseText (Some payload)) tx =
     (if payload = JNull \<or> payload = JUndefined then Inr (createFallbackAnalysis tx)
      else Inr \<lparr> sourceText = tx,
                 sentiment = ownProp payload ''sentiment'',
                 confidence = ownProp payload ''confidence'',
                 scores = ownProp payload ''scores'',
                 keywordList = ownProp payload ''keywords'',
                 explanation = ownProp payload ''explanation'',
                 sentenceBreakdown =
                   (if falsy (ownProp payload ''sentenceBreakdown'') then JArr []
                    else ownProp payload ''sentenceBreakdown''),
                 apiUsed = Gemini \<rparr>)
   \<and> ((\<exists>r. analyzeSentiment b tx = Inr r \<and> apiUsed r = Fallback)
        \<longleftrightarrow> backendFailed b \<or> b = ResponseText (Some JNull)
            \<or> b = ResponseText (Some JUndefined))"
proof -
  have 1: "analyzeSentiment (ResponseText (Some payload)) tx =
     (if payload = JNull \<or> payload = JUndefined then Inr (createFallbackAnalysis tx)
      else Inr \<lparr> sourceText = tx,
                 sentiment = ownProp payload ''sentiment'',
                 confidence = ownProp payload ''confidence'',
                 scores = ownProp payload ''scores'',
                 keywordList = ownProp payload ''keywords'',
                 explanation = ownProp payload ''explanation'',
                 sentenceBreakdown =
                   (if falsy (ownProp payload ''sentenceBreakdown'') then JArr []
                    else ownProp payload ''sentenceBreakdown''),
                 apiUsed = Gemini \<rparr>)"
    using analyzeSentiment_null [of payload tx] analyzeSentiment_object [of payload tx]
    by (cases "payload = JNull \<or> payload = JUndefined") auto
  have 2: "(\<exists>r. analyzeSentiment b tx = Inr r \<and> apiUsed r = Fallback)
        \<longleftrightarrow> backendFailed b \<or> b = ResponseText (Some JNull)
            \<or> b = ResponseText (Some JUndefined)"
  proof (cases "backendFailed b")
    case True
    then show ?thesis
      by (simp add: analyzeSentiment_failed apiUsed_fallback)
  next
    case False
    then obtain p where b: "b = ResponseText (Some p)"
      by (cases b rule: backendFailed.cases) auto
    show ?thesis
    proof (cases "p = JNull \<or> p = JUndefined")
      case True
      then show ?thesis
        using analyzeSentiment_null [of p tx] by (auto simp: b apiUsed_fallback)
    next
      case False
      then show ?thesis
        using analyzeSentiment_object [of p tx] by (auto simp: b)
    qed
  qed
  from 1 2 show ?thesis by blast
qed

text \<open>
  Claim C4 as stated fails: a payload with a label outside the enumeration, a confidence
  of 7, a string for the scores and no keywords or explanation is accepted as it is.
\<close>

theorem payload_validation_counterexample:
  "analyzeSentiment
     (ResponseText (Some (JObj [(''sentiment'', JStr ''angry''), (''confidence'', JNum 7),
                                (''scores'', JStr ''none'')]))) ''fine''
   = Inr \<lparr> sourceText = ''fine'', sentiment = JStr ''angry'', confidence = JNum 7,
           scores = JStr ''none'', keywordList = JUndefined, explanation = JUndefined,
           sentenceBreakdown = JArr [], apiUsed = Gemini \<rparr>
   \<and> \<not> structurallyValid
         \<lparr> sourceText = ''fine'', sentiment = JStr ''angry'', confidence = JNum 7,
           scores = JStr ''none'', keywordList = JUndefined, explanation = JUndefined,
           sentenceBreakdown = JArr [], apiUsed = Gemini \<rparr>"
  by (simp add: analyzeSentiment_def analyzeSentiment_try_def structurallyValid_def)

lemma firstInvalid_first:
  "list_all (\<lambda>x. valid (isValidTextInput x)) pre \<Longrightarrow> \<not> valid (isValidTextInput u) \<Longrightarrow>
   firstInvalid (pre @ u # post)
     = Some (if list_ex isLetter u then punctuationMessage else lettersMessage)"
  by (induction pre) (simp_all add: validationMessage_invalid)

lemma first_invalid_split:
  "\<exists>x\<in>set ts. \<not> valid (isValidTextInput x) \<Longrightarrow>
   \<exists>pre u post. ts = pre @ u # post
     \<and> list_all (\<lambda>x. valid (isValidTextInput x)) pre \<and> \<not> valid (isValidTextInput u)"
proof -
  assume "\<exists>x\<in>set ts. \<not> valid (isValidTextInput x)"
  from split_list_first_prop [OF this] obtain pre u post where
    "ts = pre @ u # post" and "\<not> valid (isValidTextInput u)"
    and "\<forall>y\<in>set pre. \<not> \<not> valid (isValidTextInput y)"
    by blast
  then show ?thesis
    by (auto simp: list_all_iff)
qed

text \<open>
  Claim C6, as amended. A text is valid exactly when it has a letter of \<^verbatim>\<open>[a-zA-Z]\<close> and
  none of the full stop, the apostrophe and the double quote. A request with an invalid
  text among the texts it processes is rejected whatever the backend would do, and the
  message names the rule that the first invalid text breaks (no letter; or else a
  forbidden character): an analysis (a single text, or the first ten of a batch) with
  that message alone, a comparison that the quota admits with that message prefixed by
  \<^verbatim>\<open>Text A: \<close> or \<^verbatim>\<open>Text B: \<close>. The messages of the two rules are different.
\<close>

theorem invalid_text_rejected:
  "(valid (isValidTextInput t) \<longleftrightarrow> list_ex isLetter t \<and> \<not> list_ex isForbidden t)
   \<and> (\<not> list_ex isLetter t \<longrightarrow>
        isValidTextInput t = \<lparr> valid = False, validationMessage = lettersMessage \<rparr>)
   \<and> (list_ex isLetter t \<and> list_ex isForbidden t \<longrightarrow>
        isValidTextInput t = \<lparr> valid = False, validationMessage = punctuationMessage \<rparr>)
   \<and> ((\<exists>x\<in>set (textsOf input). \<not> valid (isValidTextInput x)) \<longrightarrow>
        (\<exists>pre u post. textsOf input = pre @ u # post
           \<and> list_all (\<lambda>x. valid (isValidTextInput x)) pre
           \<and> \<not> valid (isValidTextInput u)))
   \<and> (textsOf input = pre @ u # post
        \<and> list_all (\<lambda>x. valid (isValidTextInput x)) pre
        \<and> \<not> valid (isValidTextInput u) \<longrightarrow>
        (\<forall>analyze. handleAnalyze analyze input s
           = s\<lparr> apiStatus := \<lparr> status = StatusError,
                  message = (if list_ex isLetter u then punctuationMessage
                             else lettersMessage) \<rparr> \<rparr>))
   \<and> (analysisCount s < MAX_ANALYSES \<and> \<not> valid (isValidTextInput textA) \<longrightarrow>
        (\<forall>compare. handleCompare compare textA textB s
           = s\<lparr> apiStatus := \<lparr> status = StatusError,
                  message = ''Text A: '' @ (if list_ex isLetter textA then punctuationMessage
                                            else lettersMessage) \<rparr> \<rparr>))
   \<and> (analysisCount s < MAX_ANALYSES \<and> valid (isValidTextInput textA)
        \<and> \<not> valid (isValidTextInput textB) \<longrightarrow>
        (\<forall>compare. handleCompare compare textA textB s
           = s\<lparr> apiStatus := \<lparr> status = StatusError,
                  message = ''Text B: '' @ (if list_ex isLetter textB then punctuationMessage
                                            else lettersMessage) \<rparr> \<rparr>))
   \<and> lettersMessage \<noteq> punctuationMessage"
proof -
  have 8: "lettersMessage \<noteq> punctuationMessage"
    by (simp add: lettersMessage_def punctuationMessage_def)
  have 1: "valid (isValidTextInput t) \<longleftrightarrow> list_ex isLetter t \<and> \<not> list_ex isForbidden t"
    by (simp add: isValidTextInput_def)
  have 2: "\<not> list_ex isLetter t \<longrightarrow>
        isValidTextInput t = \<lparr> valid = False, validationMessage = lettersMessage \<rparr>"
    by (simp add: isValidTextInput_def)
  have 3: "list_ex isLetter t \<and> list_ex isForbidden t \<longrightarrow>
        isValidTextInput t = \<lparr> valid = False, validationMessage = punctuationMessage \<rparr>"
    by (simp add: isValidTextInput_def)
  have 4: "(\<exists>x\<in>set (textsOf input). \<not> valid (isValidTextInput x)) \<longrightarrow>
        (\<exists>pre u post. textsOf input = pre @ u # post
           \<and> list_all (\<lambda>x. valid (isValidTextInput x)) pre
           \<and> \<not> valid (isValidTextInput u))"
    using first_invalid_split [of "textsOf input"] by blast
  have 5: "textsOf input = pre @ u # post
        \<and> list_all (\<lambda>x. valid (isValidTextInput x)) pre
        \<and> \<not> valid (isValidTextInput u) \<longrightarrow>
        (\<forall>analyze. handleAnalyze analyze input s
           = s\<lparr> apiStatus := \<lparr> status = StatusError,
                  message = (if list_ex isLetter u then punctuationMessage
                             else lettersMessage) \<rparr> \<rparr>)"
  proof (intro impI allI, elim conjE)
    fix analyze
    assume a: "textsOf input = pre @ u # post"
      and b: "list_all (\<lambda>x. valid (isValidTextInput x)) pre"
      and c: "\<not> valid (isValidTextInput u)"
    from firstInvalid_first [OF b c, of post] a
    have "firstInvalid (textsOf input)
            = Some (if list_ex isLetter u then punctuationMessage else lettersMessage)"
      by simp
    then show "handleAnalyze analyze input s
           = s\<lparr> apiStatus := \<lparr> status = StatusError,
                  message = (if list_ex isLetter u then punctuationMessage
                             else lettersMessage) \<rparr> \<rparr>"
      by (rule handleAnalyze_invalid)
  qed
  have 6: "analysisCount s < MAX_ANALYSES \<and> \<not> valid (isValidTextInput textA) \<longrightarrow>
        (\<forall>compare. handleCompare compare textA textB s
           = s\<lparr> apiStatus := \<lparr> status = StatusError,
                  message = ''Text A: '' @ (if list_ex isLetter textA then punctuationMessage
                                            else lettersMessage) \<rparr> \<rparr>)"
    using validationMessage_invalid [of textA] by (simp add: handleCompare_def)
  have 7: "analysisCount s < MAX_ANALYSES \<and> valid (isValidTextInput textA)
        \<and> \<not> valid (isValidTextInput textB) \<longrightarrow>
        (\<forall>compare. handleCompare compare textA textB s
           = s\<lparr> apiStatus := \<lparr> status = StatusError,
                  message = ''Text B: '' @ (if list_ex isLetter textB then punctuationMessage
                                            else lettersMessage) \<rparr> \<rparr>)"
    using validationMessage_invalid [of textB] by (simp add: handleCompare_def)
  from 1 2 3 4 5 6 7 8 show ?thesis
    by (intro conjI)
qed

theorem invalid_text_rejected_witness:
  "\<not> list_ex isLetter ''1234''
   \<and> isValidTextInput ''1234'' = \<lparr> valid = False, validationMessage = lettersMessage \<rparr>
   \<and> list_ex isLetter ''it's'' \<and> list_ex isForbidden ''it's''
   \<and> isValidTextInput ''it's'' = \<lparr> valid = False, validationMessage = punctuationMessage \<rparr>
   \<and> (\<exists>x\<in>set (textsOf (Batch [''fine'', ''it's'', ''1234''])). \<not> valid (isValidTextInput x))
   \<and> textsOf (Batch [''fine'', ''it's'', ''1234'']) = [''fine''] @ ''it's'' # [''1234'']
   \<and> list_all (\<lambda>x. valid (isValidTextInput x)) [''fine'']
   \<and> \<not> valid (isValidTextInput ''it's'')
   \<and> (\<forall>analyze. handleAnalyze analyze (Batch [''fine'', ''it's'', ''1234'']) initial_state
         = initial_state\<lparr> apiStatus := \<lparr> status = StatusError,
               message = punctuationMessage \<rparr> \<rparr>)
   \<and> textsOf (Batch [''1234'', ''it's'']) = [] @ ''1234'' # [''it's'']
   \<and> (\<forall>analyze. handleAnalyze analyze (Batch [''1234'', ''it's'']) initial_state
         = initial_state\<lparr> apiStatus := \<lparr> status = StatusError,
               message = lettersMessage \<rparr> \<rparr>)
   \<and> textsOf (Single ''This is awful and terrible.'')
       = [] @ ''This is awful and terrible.'' # []
   \<and> (\<forall>analyze. handleAnalyze analyze (Single ''This is awful and terrible.'') initial_state
         = initial_state\<lparr> apiStatus := \<lparr> status = StatusError,
               message = punctuationMessage \<rparr> \<rparr>)
   \<and> analysisCount initial_state < MAX_ANALYSES
   \<and> (\<forall>compare. handleCompare compare ''1234'' ''fine'' initial_state
         = initial_state\<lparr> apiStatus := \<lparr> status = StatusError,
               message = ''Text A: '' @ lettersMessage \<rparr> \<rparr>)
   \<and> valid (isValidTextInput ''fine'')
   \<and> (\<forall>compare. handleCompare compare ''fine'' ''it's'' initial_state
         = initial_state\<lparr> apiStatus := \<lparr> status = StatusError,
               message = ''Text B: '' @ punctuationMessage \<rparr> \<rparr>)"
proof -
  have a: "\<not> list_ex isLetter ''1234''"
    by (simp add: char_eval)
  have b: "list_ex isLetter ''it's''" "list_ex isForbidden ''it's''"
    by (simp_all add: char_eval)
  have b': "list_ex isLetter ''This is awful and terrible.''"
    by (simp add: char_eval)
  have c: "analysisCount initial_state < MAX_ANALYSES"
    by (simp add: initial_state_def MAX_ANALYSES_def)
  have v: "valid (isValidTextInput ''fine'')" "\<not> valid (isValidTextInput ''it's'')"
    "\<not> valid (isValidTextInput ''1234'')"
    "\<not> valid (isValidTextInput ''This is awful and terrible.'')"
    by (simp_all add: char_eval)
  have l: "list_all (\<lambda>x. valid (isValidTextInput x)) [''fine'']"
    "list_all (\<lambda>x. valid (isValidTextInput x)) []"
    using v by simp_all
  have e: "\<exists>x\<in>set (textsOf (Batch [''fine'', ''it's'', ''1234''])). \<not> valid (isValidTextInput x)"
    using v by simp
  have t1: "textsOf (Batch [''fine'', ''it's'', ''1234'']) = [''fine''] @ ''it's'' # [''1234'']"
    and t2: "textsOf (Batch [''1234'', ''it's'']) = [] @ ''1234'' # [''it's'']"
    and t3: "textsOf (Single ''This is awful and terrible.'')
       = [] @ ''This is awful and terrible.'' # []"
    by simp_all
  note w1 = invalid_text_rejected [where t = "''1234''"
      and input = "Batch [''fine'', ''it's'', ''1234'']" and pre = "[''fine'']"
      and u = "''it's''" and post = "[''1234'']" and s = initial_state
      and textA = "''1234''" and textB = "''fine''"]
  note w2 = invalid_text_rejected [where t = "''it's''"
      and input = "Batch [''1234'', ''it's'']" and pre = "[]"
      and u = "''1234''" and post = "[''it's'']" and s = initial_state
      and textA = "''fine''" and textB = "''it's''"]
  note w3 = invalid_text_rejected [where t = "''it's''"
      and input = "Single ''This is awful and terrible.''" and pre = "[]"
      and u = "''This is awful and terrible.''" and post = "[]" and s = initial_state
      and textA = "''fine''" and textB = "''it's''"]
  from w1 a have r1: "isValidTextInput ''1234''
      = \<lparr> valid = False, validationMessage = lettersMessage \<rparr>"
    by blast
  from w2 b have r2: "isValidTextInput ''it's''
      = \<lparr> valid = False, validationMessage = punctuationMessage \<rparr>"
    by blast
  from w1 t1 l v b have r3: "\<forall>analyze. handleAnalyze analyze
        (Batch [''fine'', ''it's'', ''1234'']) initial_state
         = initial_state\<lparr> apiStatus := \<lparr> status = StatusError,
               message = punctuationMessage \<rparr> \<rparr>"
    by simp
  from w2 t2 l v a have r4: "\<forall>analyze. handleAnalyze analyze
        (Batch [''1234'', ''it's'']) initial_state
         = initial_state\<lparr> apiStatus := \<lparr> status = StatusError,
               message = lettersMessage \<rparr> \<rparr>"
    by simp
  from w3 t3 l v b' have r5: "\<forall>analyze. handleAnalyze analyze
        (Single ''This is awful and terrible.'') initial_state
         = initial_state\<lparr> apiStatus := \<lparr> status = StatusError,
               message = punctuationMessage \<rparr> \<rparr>"
    by simp
  from w1 c v a have r6: "\<forall>compare. handleCompare compare ''1234'' ''fine'' initial_state
         = initial_state\<lparr> apiStatus := \<lparr> status = StatusError,
               message = ''Text A: '' @ lettersMessage \<rparr> \<rparr>"
    by simp
  from w2 c v b have r7: "\<forall>compare. handleCompare compare ''fine'' ''it's'' initial_state
         = initial_state\<lparr> apiStatus := \<lparr> status = StatusError,
               message = ''Text B: '' @ punctuationMessage \<rparr> \<rparr>"
    by simp
  from a r1 b r2 e t1 l(1) v(2) r3 t2 r4 t3 r5 c r6 v(1) r7 show ?thesis
    by (intro conjI)
qed

text \<open>
  Claim C6 as stated fails: a batch whose second text is invalid and a batch whose first
  text is invalid end in the same state with the same message, which therefore does not
  say which text failed; and an invalid text in eleventh place is dropped, not rejected.
\<close>

theorem batch_rejection_counterexample:
  "handleAnalyze (\<lambda>t. analyzeSentiment ApiKeyNotSet t) (Batch [''abc'', ''1234'']) initial_state
     = handleAnalyze (\<lambda>t. analyzeSentiment ApiKeyNotSet t) (Batch [''1234'', ''abc'']) initial_state
   \<and> apiStatus (handleAnalyze (\<lambda>t. analyzeSentiment ApiKeyNotSet t)
                  (Batch [''abc'', ''1234'']) initial_state)
       = \<lparr> status = StatusError, message = lettersMessage \<rparr>
   \<and> \<not> valid (isValidTextInput ''1234'')
   \<and> status (apiStatus (handleAnalyze (\<lambda>t. analyzeSentiment ApiKeyNotSet t)
        (Batch [''a'', ''b'', ''c'', ''d'', ''e'', ''f'', ''g'', ''h'', ''i'', ''j'', ''1234''])
        initial_state)) = StatusSuccess
   \<and> analysisCount (handleAnalyze (\<lambda>t. analyzeSentiment ApiKeyNotSet t)
        (Batch [''a'', ''b'', ''c'', ''d'', ''e'', ''f'', ''g'', ''h'', ''i'', ''j'', ''1234''])
        initial_state) = 10"
  by (simp add: handleAnalyze_def char_eval initial_state_def MAX_ANALYSES_def
      analyzeSentiment_def analyzeSentiment_try_def)




lemma completeMessage_10: "completeMessage 10 = ''Analysis complete for 10 text(s)!''"
  by code_simp




lemma compareSentiments_failed:
  "backendFailed b \<Longrightarrow> compareSentiments b textA textB = Inl (Error compareFailureMessage)"
  by (cases b rule: backendFailed.cases) (simp_all add: compareSentiments_def)

lemma compareFailureMessage_nonempty: "compareFailureMessage \<noteq> []"
  by (simp add: compareFailureMessage_def)

text \<open>
  Claim C8. When the backend operation of a comparison fails, the comparison service
  throws an Error with a fixed message for the user and computes nothing locally; the
  handler leaves the counter and the history of single-text results as they were, and for
  an admitted request ends with the dialog open, no result and that message as the error.
\<close>

theorem compare_failure_no_fallback:
  "backendFailed b \<Longrightarrow>
     compareSentiments b textA textB = Inl (Error compareFailureMessage)
     \<and> analysisCount (handleCompare (compareSentiments b) textA textB s) = analysisCount s
     \<and> results (handleCompare (compareSentiments b) textA textB s) = results s
     \<and> (analysisCount s < MAX_ANALYSES
          \<and> valid (isValidTextInput textA) \<and> valid (isValidTextInput textB) \<longrightarrow>
        handleCompare (compareSentiments b) textA textB s
          = s\<lparr> comparisonModalState :=
                 \<lparr> isOpen = True, result = JNull, modalLoading = False,
                   error = Some compareFailureMessage \<rparr>,
               isLoading := False \<rparr>)"
proof -
  assume f: "backendFailed b"
  then have c: "compareSentiments b textA textB = Inl (Error compareFailureMessage)"
    by (rule compareSentiments_failed)
  then have "analysisCount (handleCompare (compareSentiments b) textA textB s) = analysisCount s"
    by (simp add: handleCompare_count)
  moreover have "analysisCount s < MAX_ANALYSES
          \<and> valid (isValidTextInput textA) \<and> valid (isValidTextInput textB) \<longrightarrow>
        handleCompare (compareSentiments b) textA textB s
          = s\<lparr> comparisonModalState :=
                 \<lparr> isOpen = True, result = JNull, modalLoading = False,
                   error = Some compareFailureMessage \<rparr>,
               isLoading := False \<rparr>"
    using c compareFailureMessage_nonempty by (simp add: handleCompare_def)
  ultimately show ?thesis
    using c by (simp add: handleCompare_results)
qed

theorem compare_failure_no_fallback_witness:
  "backendFailed (CallRejected (Error ''503''))
   \<and> analysisCount initial_state < MAX_ANALYSES
   \<and> valid (isValidTextInput ''I love this'') \<and> valid (isValidTextInput ''I hate this'')
   \<and> handleCompare (compareSentiments (CallRejected (Error ''503'')))
        ''I love this'' ''I hate this'' initial_state
       = initial_state\<lparr> comparisonModalState :=
                 \<lparr> isOpen = True, result = JNull, modalLoading = False,
                   error = Some compareFailureMessage \<rparr>,
               isLoading := False \<rparr>"
proof -
  have a: "backendFailed (CallRejected (Error ''503''))" by simp
  have b: "analysisCount initial_state < MAX_ANALYSES"
    by (simp add: initial_state_def MAX_ANALYSES_def)
  have c: "valid (isValidTextInput ''I love this'') \<and> valid (isValidTextInput ''I hate this'')"
    by (simp add: char_eval)
  from compare_failure_no_fallback [OF a, of "''I love this''" "''I hate this''" initial_state]
    a b c
  show ?thesis by blast
qed

lemma handleAnalyze_texts:
  "textsOf input = textsOf input' \<Longrightarrow> handleAnalyze analyze input s = handleAnalyze analyze input' s"
  by (simp add: handleAnalyze_def)

text \<open>
  Claim C9. A batch is cut to its first ten texts before anything else happens: the
  handler does on a batch exactly what it does on its first ten texts, so the texts
  beyond the tenth are dropped without any error; when the first ten texts are valid, the
  quota admits ten and the ten analyses resolve, exactly these ten results are added, in
  input order, and the counter grows by ten.
\<close>

theorem batch_cap:
  "handleAnalyze analyze (Batch ts) s = handleAnalyze analyze (Batch (take 10 ts)) s
   \<and> length (textsOf (Batch ts)) \<le> 10
   \<and> (length ts \<ge> 10
        \<and> list_all (\<lambda>t. valid (isValidTextInput t)) (take 10 ts)
        \<and> analysisCount s + 10 \<le> MAX_ANALYSES
        \<and> (\<forall>t\<in>set (take 10 ts). analyze t = Inr (f t)) \<longrightarrow>
        handleAnalyze analyze (Batch ts) s
          = s\<lparr> results := map f (take 10 ts) @ results s,
               analysisCount := analysisCount s + 10,
               currentSentiment := Some (sentiment (f (hd ts))),
               apiStatus := \<lparr> status = StatusSuccess,
                              message = ''Analysis complete for 10 text(s)!'' \<rparr>,
               isLoading := False \<rparr>)"
proof -
  have 1: "handleAnalyze analyze (Batch ts) s = handleAnalyze analyze (Batch (take 10 ts)) s"
    by (rule handleAnalyze_texts) simp
  have 2: "length (textsOf (Batch ts)) \<le> 10" by simp
  have 3: "length ts \<ge> 10
        \<and> list_all (\<lambda>t. valid (isValidTextInput t)) (take 10 ts)
        \<and> analysisCount s + 10 \<le> MAX_ANALYSES
        \<and> (\<forall>t\<in>set (take 10 ts). analyze t = Inr (f t)) \<longrightarrow>
        handleAnalyze analyze (Batch ts) s
          = s\<lparr> results := map f (take 10 ts) @ results s,
               analysisCount := analysisCount s + 10,
               currentSentiment := Some (sentiment (f (hd ts))),
               apiStatus := \<lparr> status = StatusSuccess,
                              message = ''Analysis complete for 10 text(s)!'' \<rparr>,
               isLoading := False \<rparr>"
  proof (intro impI, elim conjE)
    assume l: "length ts \<ge> 10"
      and v: "list_all (\<lambda>t. valid (isValidTextInput t)) (take 10 ts)"
      and q: "analysisCount s + 10 \<le> MAX_ANALYSES"
      and a: "\<forall>t\<in>set (take 10 ts). analyze t = Inr (f t)"
    from l have len: "length (textsOf (Batch ts)) = 10" by simp
    from l have ne: "textsOf (Batch ts) \<noteq> []" by auto
    from l have h: "hd (take 10 ts) = hd ts" by (cases ts) auto
    from l have len': "length (take 10 ts) = 10" by simp
    from v have v': "firstInvalid (textsOf (Batch ts)) = None"
      by (simp add: firstInvalid_None_iff)
    from q len have q': "analysisCount s + length (textsOf (Batch ts)) \<le> MAX_ANALYSES" by simp
    from a have a': "\<forall>t\<in>set (textsOf (Batch ts)). analyze t = Inr (f t)" by simp
    from handleAnalyze_resolved [OF v' q' a' ne] show
      "handleAnalyze analyze (Batch ts) s
          = s\<lparr> results := map f (take 10 ts) @ results s,
               analysisCount := analysisCount s + 10,
               currentSentiment := Some (sentiment (f (hd ts))),
               apiStatus := \<lparr> status = StatusSuccess,
                              message = ''Analysis complete for 10 text(s)!'' \<rparr>,
               isLoading := False \<rparr>"
      by (simp only: textsOf.simps len' h completeMessage_10)
  qed
  from 1 2 3 show ?thesis by (intro conjI)
qed

theorem batch_cap_witness:
  "length [''a'', ''b'', ''c'', ''d'', ''e'', ''f'', ''g'', ''h'', ''i'', ''j'',
           ''k'', ''l'', ''m'', ''n'', ''o''] = 15
   \<and> list_all (\<lambda>t. valid (isValidTextInput t))
        (take 10 [''a'', ''b'', ''c'', ''d'', ''e'', ''f'', ''g'', ''h'', ''i'', ''j'',
                  ''k'', ''l'', ''m'', ''n'', ''o''])
   \<and> analysisCount initial_state + 10 \<le> MAX_ANALYSES
   \<and> handleAnalyze (\<lambda>t. analyzeSentiment ApiKeyNotSet t)
        (Batch [''a'', ''b'', ''c'', ''d'', ''e'', ''f'', ''g'', ''h'', ''i'', ''j'',
                ''k'', ''l'', ''m'', ''n'', ''o'']) initial_state
      = initial_state\<lparr> results := map createFallbackAnalysis
                 [''a'', ''b'', ''c'', ''d'', ''e'', ''f'', ''g'', ''h'', ''i'', ''j''],
               analysisCount := 10,
               currentSentiment := Some (sentiment (createFallbackAnalysis ''a'')),
               apiStatus := \<lparr> status = StatusSuccess,
                              message = ''Analysis complete for 10 text(s)!'' \<rparr>,
               isLoading := False \<rparr>"
proof -
  have l: "length [''a'', ''b'', ''c'', ''d'', ''e'', ''f'', ''g'', ''h'', ''i'', ''j'',
           ''k'', ''l'', ''m'', ''n'', ''o''] = 15"
    by simp
  have v: "list_all (\<lambda>t. valid (isValidTextInput t))
        (take 10 [''a'', ''b'', ''c'', ''d'', ''e'', ''f'', ''g'', ''h'', ''i'', ''j'',
                  ''k'', ''l'', ''m'', ''n'', ''o''])"
    by (simp add: char_eval)
  have q: "analysisCount initial_state + 10 \<le> MAX_ANALYSES"
    by (simp add: initial_state_def MAX_ANALYSES_def)
  have a: "\<forall>t\<in>set (take 10 [''a'', ''b'', ''c'', ''d'', ''e'', ''f'', ''g'', ''h'', ''i'', ''j'',
                  ''k'', ''l'', ''m'', ''n'', ''o'']).
             (\<lambda>t. analyzeSentiment ApiKeyNotSet t) t = Inr (createFallbackAnalysis t)"
    by (simp add: analyzeSentiment_failed)
  have r: "handleAnalyze (\<lambda>t. analyzeSentiment ApiKeyNotSet t)
        (Batch [''a'', ''b'', ''c'', ''d'', ''e'', ''f'', ''g'', ''h'', ''i'', ''j'',
                ''k'', ''l'', ''m'', ''n'', ''o'']) initial_state
      = initial_state\<lparr> results := map createFallbackAnalysis
                 [''a'', ''b'', ''c'', ''d'', ''e'', ''f'', ''g'', ''h'', ''i'', ''j''],
               analysisCount := 10,
               currentSentiment := Some (sentiment (createFallbackAnalysis ''a'')),
               apiStatus := \<lparr> status = StatusSuccess,
                              message = ''Analysis complete for 10 text(s)!'' \<rparr>,
               isLoading := False \<rparr>"
    using batch_cap [of "\<lambda>t. analyzeSentiment ApiKeyNotSet t"
        "[''a'', ''b'', ''c'', ''d'', ''e'', ''f'', ''g'', ''h'', ''i'', ''j'',
          ''k'', ''l'', ''m'', ''n'', ''o'']" initial_state createFallbackAnalysis,
        THEN conjunct2, THEN conjunct2] l v q a
    by (simp add: initial_state_def)
  from l v q r show ?thesis by (intro conjI)
qed

end
